theory Spec2Isabelle
  imports Complex_Main
begin

section \<open>C++ \<open>double\<close> values and the library functions the pricer calls\<close>

text \<open>
  A \<open>double\<close> is modelled as an exact real number or one of the three IEEE-754 special
  values. Finite arithmetic is exact (no rounding, no overflow); the special values
  follow the IEEE-754 rules, so that a division by zero is a value of the model
  (an infinity or a NaN) exactly as in the program, where it does not trap.
  Zero carries no sign: a zero divisor behaves as \<open>+0.0\<close>, which is the zero that
  \<open>volatility * sqrt(0)\<close> yields for a positive volatility.
\<close>

datatype double = Num real | PosInf | NegInf | NaN

fun sign_of :: "double \<Rightarrow> real" where
  "sign_of (Num a) = sgn a"
| "sign_of PosInf = 1"
| "sign_of NegInf = - 1"
| "sign_of NaN = 0"

definition inf_of_sign :: "real \<Rightarrow> double" where
  "inf_of_sign s = (if 0 < s then PosInf else if s < 0 then NegInf else NaN)"

instantiation double :: "{plus,minus,uminus,times,inverse,ord}"
begin

fun uminus_double :: "double \<Rightarrow> double" where
  "uminus_double (Num a) = Num (- a)"
| "uminus_double PosInf = NegInf"
| "uminus_double NegInf = PosInf"
| "uminus_double NaN = NaN"

fun plus_double :: "double \<Rightarrow> double \<Rightarrow> double" where
  "plus_double (Num a) (Num b) = Num (a + b)"
| "plus_double NaN y = NaN"
| "plus_double x NaN = NaN"
| "plus_double PosInf NegInf = NaN"
| "plus_double NegInf PosInf = NaN"
| "plus_double PosInf y = PosInf"
| "plus_double x PosInf = PosInf"
| "plus_double NegInf y = NegInf"
| "plus_double x NegInf = NegInf"

definition minus_double :: "double \<Rightarrow> double \<Rightarrow> double" where
  "minus_double x y = x + (- y)"

fun times_double :: "double \<Rightarrow> double \<Rightarrow> double" where
  "times_double (Num a) (Num b) = Num (a * b)"
| "times_double NaN y = NaN"
| "times_double x NaN = NaN"
| "times_double x y = inf_of_sign (sign_of x * sign_of y)"

fun divide_double :: "double \<Rightarrow> double \<Rightarrow> double" where
  "divide_double (Num a) (Num b) = (if b \<noteq> 0 then Num (a / b) else inf_of_sign (sgn a))"
| "divide_double NaN y = NaN"
| "divide_double x NaN = NaN"
| "divide_double (Num a) y = Num 0"
| "divide_double x (Num b) = inf_of_sign (sign_of x * (if b < 0 then - 1 else 1))"
| "divide_double x y = NaN"

definition inverse_double :: "double \<Rightarrow> double" where
  "inverse_double x = divide (Num 1) x"

fun less_double :: "double \<Rightarrow> double \<Rightarrow> bool" where
  "less_double (Num a) (Num b) = (a < b)"
| "less_double NaN y = False"
| "less_double x NaN = False"
| "less_double x NegInf = False"
| "less_double PosInf y = False"
| "less_double NegInf y = True"
| "less_double x PosInf = True"

fun less_eq_double :: "double \<Rightarrow> double \<Rightarrow> bool" where
  "less_eq_double (Num a) (Num b) = (a \<le> b)"
| "less_eq_double NaN y = False"
| "less_eq_double x NaN = False"
| "less_eq_double NegInf y = True"
| "less_eq_double x PosInf = True"
| "less_eq_double x NegInf = False"
| "less_eq_double PosInf y = False"

instance ..

end

text \<open>\<open>std::max(a, b)\<close> is \<open>(a < b) ? b : a\<close>.\<close>

definition std_max :: "double \<Rightarrow> double \<Rightarrow> double" where
  "std_max a b = (if a < b then b else a)"

fun std_exp :: "double \<Rightarrow> double" where
  "std_exp (Num a) = Num (exp a)"
| "std_exp PosInf = PosInf"
| "std_exp NegInf = Num 0"
| "std_exp NaN = NaN"

fun std_log :: "double \<Rightarrow> double" where
  "std_log (Num a) = (if 0 < a then Num (ln a) else if a = 0 then NegInf else NaN)"
| "std_log PosInf = PosInf"
| "std_log NegInf = NaN"
| "std_log NaN = NaN"

fun std_sqrt :: "double \<Rightarrow> double" where
  "std_sqrt (Num a) = (if 0 \<le> a then Num (sqrt a) else NaN)"
| "std_sqrt PosInf = PosInf"
| "std_sqrt NegInf = NaN"
| "std_sqrt NaN = NaN"

text \<open>
  The error function, by its Maclaurin series
  \<open>erf x = 2/\<surd>\<pi> \<cdot> \<Sum>n. (-1)\<^sup>n x\<^sup>2\<^sup>n\<^sup>+\<^sup>1 / (n! (2n+1))\<close>, and its complement.
\<close>

definition erf_term :: "real \<Rightarrow> nat \<Rightarrow> real" where
  "erf_term x n = (- 1) ^ n * x ^ (2 * n + 1) / (fact n * real (2 * n + 1))"

definition erf :: "real \<Rightarrow> real" where
  "erf x = 2 / sqrt pi * (\<Sum>n. erf_term x n)"

definition erfc :: "real \<Rightarrow> real" where
  "erfc x = 1 - erf x"

fun std_erf :: "double \<Rightarrow> double" where
  "std_erf (Num a) = Num (erf a)"
| "std_erf PosInf = Num 1"
| "std_erf NegInf = Num (- 1)"
| "std_erf NaN = NaN"

fun std_erfc :: "double \<Rightarrow> double" where
  "std_erfc (Num a) = Num (erfc a)"
| "std_erfc PosInf = Num 0"
| "std_erfc NegInf = Num 2"
| "std_erfc NaN = NaN"

definition M_SQRT1_2 :: double where
  "M_SQRT1_2 = Num (1 / sqrt 2)"

text \<open>Conversion of an \<open>int\<close> (or a \<open>size_t\<close>) to \<open>double\<close>.\<close>

definition of_int_d :: "int \<Rightarrow> double" where
  "of_int_d n = Num (real_of_int n)"

section \<open>The market model and the option classes\<close>

record BlackScholesModel =
  spot :: double
  rate :: double
  volatility :: double
  dividend :: double

record Option =
  strike :: double
  maturity :: double

subsection \<open>\<open>BlackScholesModel::normalCDF\<close>, \<open>BlackScholesModel::priceAnalytic\<close>\<close>

definition normalCDF :: "double \<Rightarrow> double" where
  "normalCDF x = Num 0.5 * std_erfc (- x * M_SQRT1_2)"

definition priceAnalytic :: "BlackScholesModel \<Rightarrow> 'a Option_scheme \<Rightarrow> bool \<Rightarrow> double" where
  "priceAnalytic m option isCall =
    (let d1 = (std_log (spot m / strike option) +
                 (rate m - dividend m + Num 0.5 * volatility m * volatility m) * maturity option) /
              (volatility m * std_sqrt (maturity option));
         d2 = d1 - volatility m * std_sqrt (maturity option);
         Nd1 = normalCDF d1;
         Nd2 = normalCDF d2;
         Nmd1 = normalCDF (- d1);
         Nmd2 = normalCDF (- d2)
     in if isCall
        then spot m * std_exp (- dividend m * maturity option) * Nd1 -
             strike option * std_exp (- rate m * maturity option) * Nd2
        else strike option * std_exp (- rate m * maturity option) * Nmd2 -
             spot m * std_exp (- dividend m * maturity option) * Nmd1)"

datatype OptionType = Call | Put

datatype BarrierType = UpAndOut | DownAndOut | UpAndIn | DownAndIn

record AsianOption = Option +
  optionType :: OptionType

record LookbackOption = Option +
  optionType :: OptionType

record BarrierOption = Option +
  barrier :: double
  barrierType :: BarrierType
  optionType :: OptionType

text \<open>
  What a call can end in other than a value: the \<open>std::logic_error\<close> the path-only
  classes throw, the \<open>std::length_error\<close> of \<open>vector::reserve\<close>, and undefined
  behaviour of the standard library (\<open>back()\<close> or \<open>*max_element\<close> on an empty vector),
  where the model stops.
\<close>

datatype error = logic_error string | length_error | undefined_behaviour

text \<open>
  \<open>path.reserve(n)\<close> with an \<open>int\<close> argument: a negative \<open>n\<close> converts to a
  \<open>size_t\<close> above \<open>max_size()\<close>, and \<open>reserve\<close> throws \<open>std::length_error\<close>.
  Memory exhaustion is not modelled.
\<close>

definition reserve :: "int \<Rightarrow> error + unit" where
  "reserve n = (if n < 0 then Inl length_error else Inr ())"

text \<open>\<open>path.back()\<close>.\<close>

definition vector_back :: "double list \<Rightarrow> error + double" where
  "vector_back path = (case path of [] \<Rightarrow> Inl undefined_behaviour | _ \<Rightarrow> Inr (last path))"

text \<open>\<open>*std::max_element(first, last)\<close> and \<open>*std::min_element(first, last)\<close>:
  the first largest (smallest) element under \<open><\<close>.\<close>

fun max_element_from :: "double \<Rightarrow> double list \<Rightarrow> double" where
  "max_element_from largest [] = largest"
| "max_element_from largest (x # xs) = max_element_from (if largest < x then x else largest) xs"

fun min_element_from :: "double \<Rightarrow> double list \<Rightarrow> double" where
  "min_element_from smallest [] = smallest"
| "min_element_from smallest (x # xs) = min_element_from (if x < smallest then x else smallest) xs"

definition max_element :: "double list \<Rightarrow> error + double" where
  "max_element path = (case path of [] \<Rightarrow> Inl undefined_behaviour | x # xs \<Rightarrow> Inr (max_element_from x xs))"

definition min_element :: "double list \<Rightarrow> error + double" where
  "min_element path = (case path of [] \<Rightarrow> Inl undefined_behaviour | x # xs \<Rightarrow> Inr (min_element_from x xs))"

text \<open>\<open>std::accumulate(path.begin(), path.end(), 0.0)\<close>.\<close>

definition accumulate :: "double list \<Rightarrow> double \<Rightarrow> double" where
  "accumulate path init = foldl (+) init path"

subsection \<open>Random sources\<close>

text \<open>
  A run of a Monte Carlo pricer reads standard normal draws from its own generator:
  \<open>z i j\<close> is the draw \<open>dist(rng)\<close> made at step \<open>j\<close> of path \<open>i\<close>.
  A run of \<open>hedgeCost\<close> reads \<open>rand()\<close>: \<open>u k\<close> is the value of
  \<open>(double)rand() / RAND_MAX\<close> at the \<open>k\<close>-th call (from 0), and \<open>zs i up\<close> are the
  draws of the pricer call made at rebalancing step \<open>i\<close> (0 for the initial delta) for the
  bumped-up (\<open>up = True\<close>) or bumped-down model.
\<close>

type_synonym draws = "nat \<Rightarrow> nat \<Rightarrow> real"

text \<open>The one-step update \<open>spot *= std::exp(drift + diffusion)\<close> that every loop repeats,
  with \<open>w\<close> the random perturbation.\<close>

definition simulate_step :: "BlackScholesModel \<Rightarrow> double \<Rightarrow> double \<Rightarrow> double \<Rightarrow> double" where
  "simulate_step m dt w spot0 =
    (let drift = (rate m - dividend m - Num 0.5 * volatility m * volatility m) * dt;
         diffusion = volatility m * std_sqrt dt * w
     in spot0 * std_exp (drift + diffusion))"

text \<open>The inner loop \<open>for (int j = 0; j < steps; ++j)\<close> of the three Monte Carlo pricers
  (the same statements in each): it advances \<open>spot\<close> and appends it to \<open>path\<close>.\<close>

function path_loop ::
  "BlackScholesModel \<Rightarrow> double \<Rightarrow> (nat \<Rightarrow> real) \<Rightarrow> int \<Rightarrow> int \<Rightarrow> double \<Rightarrow> double list
     \<Rightarrow> double \<times> double list" where
  "path_loop m dt z steps j spot0 path =
    (if j < steps
     then let spot1 = simulate_step m dt (Num (z (nat j))) spot0
          in path_loop m dt z steps (j + 1) spot1 (path @ [spot1])
     else (spot0, path))"
  by pat_completeness auto
termination
  by (relation "measure (\<lambda>(m, dt, z, steps, j, spot0, path). nat (steps - j))") auto

text \<open>\<open>double epsilon = 0.01 * model.spot\<close>, the first statement of each Monte Carlo
  \<open>hedgeCost\<close>; the loop reads \<open>epsilon\<close> and never assigns it.\<close>

definition hedge_epsilon :: "BlackScholesModel \<Rightarrow> double" where
  "hedge_epsilon m = Num 0.01 * spot m"

text \<open>The arguments one invocation of a four-argument Monte Carlo pricer receives.\<close>

record PriceCall =
  pc_model :: BlackScholesModel
  pc_numPaths :: int
  pc_steps :: int
  pc_adjustedMaturity :: double

text \<open>The local variables of the \<open>hedgeCost\<close> loop of the Monte Carlo-hedged classes;
  \<open>hs_calls\<close> collects, with the rebalancing step, the pricer invocations made so far.\<close>

record HedgeState =
  hs_spot :: double
  hs_path :: "double list"
  hs_modelUp :: BlackScholesModel
  hs_modelDown :: BlackScholesModel
  hs_delta :: double
  hs_cash :: double
  hs_barrierTouched :: bool
  hs_calls :: "(int \<times> PriceCall) list"

subsection \<open>\<open>AsianOption\<close>\<close>

definition AsianOption_payoff :: "AsianOption \<Rightarrow> double list \<Rightarrow> double" where
  "AsianOption_payoff opt path =
    (let average = accumulate path (Num 0) / Num (real (length path))
     in if AsianOption.optionType opt = Call
        then std_max (average - strike opt) (Num 0)
        else std_max (strike opt - average) (Num 0))"

definition AsianOption_payoff_spot :: "AsianOption \<Rightarrow> double \<Rightarrow> error + double" where
  "AsianOption_payoff_spot opt spot0 =
    Inl (logic_error ''payoff(double spot) is not applicable for AsianOption.'')"

text \<open>The path one iteration of the pricer's outer loop builds.\<close>

definition AsianOption_path ::
  "BlackScholesModel \<Rightarrow> double \<Rightarrow> (nat \<Rightarrow> real) \<Rightarrow> int \<Rightarrow> error + double list" where
  "AsianOption_path m dt z steps =
    (case reserve steps of
       Inl e \<Rightarrow> Inl e
     | Inr _ \<Rightarrow> Inr (snd (path_loop m dt z steps 0 (spot m) [])))"

function AsianOption_price_loop ::
  "AsianOption \<Rightarrow> BlackScholesModel \<Rightarrow> int \<Rightarrow> int \<Rightarrow> double \<Rightarrow> draws \<Rightarrow> int \<Rightarrow> double
     \<Rightarrow> error + double" where
  "AsianOption_price_loop opt m numPaths steps dt z i sumPayoffs =
    (if i < numPaths
     then case AsianOption_path m dt (z (nat i)) steps of
            Inl e \<Rightarrow> Inl e
          | Inr path \<Rightarrow>
              AsianOption_price_loop opt m numPaths steps dt z (i + 1)
                (sumPayoffs + AsianOption_payoff opt path)
     else Inr sumPayoffs)"
  by pat_completeness auto
termination
  by (relation "measure (\<lambda>(opt, m, numPaths, steps, dt, z, i, sumPayoffs). nat (numPaths - i))") auto

text \<open>\<open>price(model, numPaths, steps, adjustedMaturity)\<close>.\<close>

definition AsianOption_price_adjusted ::
  "AsianOption \<Rightarrow> BlackScholesModel \<Rightarrow> int \<Rightarrow> int \<Rightarrow> double \<Rightarrow> draws \<Rightarrow> error + double" where
  "AsianOption_price_adjusted opt m numPaths steps adjustedMaturity z =
    (let dt = adjustedMaturity / of_int_d steps
     in case AsianOption_price_loop opt m numPaths steps dt z 0 (Num 0) of
          Inl e \<Rightarrow> Inl e
        | Inr sumPayoffs \<Rightarrow>
            Inr (std_exp (- rate m * adjustedMaturity) * (sumPayoffs / of_int_d numPaths)))"


text \<open>The same two entry points, returning also the invocation of the four-argument
  pricer they amount to.\<close>

definition AsianOption_price_adjusted_traced ::
  "AsianOption \<Rightarrow> BlackScholesModel \<Rightarrow> int \<Rightarrow> int \<Rightarrow> double \<Rightarrow> draws
     \<Rightarrow> (error + double) \<times> PriceCall" where
  "AsianOption_price_adjusted_traced opt m numPaths steps adjustedMaturity z =
    (AsianOption_price_adjusted opt m numPaths steps adjustedMaturity z,
     \<lparr>pc_model = m, pc_numPaths = numPaths, pc_steps = steps,
      pc_adjustedMaturity = adjustedMaturity\<rparr>)"

definition AsianOption_price_traced ::
  "AsianOption \<Rightarrow> BlackScholesModel \<Rightarrow> int \<Rightarrow> int \<Rightarrow> draws \<Rightarrow> (error + double) \<times> PriceCall" where
  "AsianOption_price_traced opt m numPaths steps z =
    AsianOption_price_adjusted_traced opt m numPaths steps (maturity opt) z"

text \<open>\<open>hedgeCost\<close>: the statements before the loop.\<close>

definition AsianOption_hedge_init ::
  "AsianOption \<Rightarrow> BlackScholesModel \<Rightarrow> int \<Rightarrow> (int \<Rightarrow> bool \<Rightarrow> draws) \<Rightarrow> error + HedgeState" where
  "AsianOption_hedge_init opt m steps zs =
    (let numPaths = 10000;
         epsilon = hedge_epsilon m;
         modelUp = m\<lparr>spot := spot m + epsilon\<rparr>;
         modelDown = m\<lparr>spot := spot m - epsilon\<rparr>;
         (rUp, cUp) = AsianOption_price_traced opt modelUp numPaths steps (zs 0 True);
         (rDown, cDown) = AsianOption_price_traced opt modelDown numPaths steps (zs 0 False)
     in case rUp of Inl e \<Rightarrow> Inl e | Inr priceUp \<Rightarrow>
        case rDown of Inl e \<Rightarrow> Inl e | Inr priceDown \<Rightarrow>
          let delta = (priceUp - priceDown) / (Num 2 * epsilon);
              spot0 = spot m;
              cash = delta * spot0
          in Inr \<lparr>hs_spot = spot0, hs_path = [spot0], hs_modelUp = modelUp,
                  hs_modelDown = modelDown, hs_delta = delta, hs_cash = cash,
                  hs_barrierTouched = False, hs_calls = [(0, cUp), (0, cDown)]\<rparr>)"

text \<open>The body of the loop, at rebalancing step \<open>i\<close>. \<open>numPaths\<close>, \<open>epsilon\<close> and \<open>dt\<close>
  are the values \<open>hedgeCost\<close> computes once before the loop; \<open>u (i - 1)\<close> is the loop's
  \<open>i\<close>-th call of \<open>rand()\<close>. The local \<open>adjustedMaturity\<close> is computed and not read
  again: the pricer is called through its three-argument form.\<close>

definition AsianOption_hedge_step ::
  "AsianOption \<Rightarrow> BlackScholesModel \<Rightarrow> int \<Rightarrow> (nat \<Rightarrow> real) \<Rightarrow> (int \<Rightarrow> bool \<Rightarrow> draws) \<Rightarrow> int
     \<Rightarrow> HedgeState \<Rightarrow> error + HedgeState" where
  "AsianOption_hedge_step opt m steps u zs i st =
    (let numPaths = 10000;
         epsilon = hedge_epsilon m;
         dt = maturity opt / of_int_d steps;
         adjustedMaturity = maturity opt - of_int_d i * dt;
         spot1 = simulate_step m dt (Num (u (nat (i - 1))) - Num 0.5) (hs_spot st);
         path = hs_path st @ [spot1];
         previousDelta = hs_delta st;
         modelUp = (hs_modelUp st)\<lparr>spot := spot1 + epsilon\<rparr>;
         modelDown = (hs_modelDown st)\<lparr>spot := spot1 - epsilon\<rparr>;
         (rUp, cUp) = AsianOption_price_traced opt modelUp numPaths (steps - i) (zs i True);
         (rDown, cDown) = AsianOption_price_traced opt modelDown numPaths (steps - i) (zs i False)
     in case rUp of Inl e \<Rightarrow> Inl e | Inr priceUp \<Rightarrow>
        case rDown of Inl e \<Rightarrow> Inl e | Inr priceDown \<Rightarrow>
          let delta = (priceUp - priceDown) / (Num 2 * epsilon);
              cash = hs_cash st + (delta - previousDelta) * spot1;
              cash = cash * std_exp (rate m * dt)
          in Inr (st\<lparr>hs_spot := spot1, hs_path := path, hs_modelUp := modelUp,
                      hs_modelDown := modelDown, hs_delta := delta, hs_cash := cash,
                      hs_calls := hs_calls st @ [(i, cUp), (i, cDown)]\<rparr>))"

function AsianOption_hedge_loop ::
  "AsianOption \<Rightarrow> BlackScholesModel \<Rightarrow> int \<Rightarrow> (nat \<Rightarrow> real) \<Rightarrow> (int \<Rightarrow> bool \<Rightarrow> draws) \<Rightarrow> int
     \<Rightarrow> HedgeState \<Rightarrow> error + HedgeState" where
  "AsianOption_hedge_loop opt m steps u zs i st =
    (if i < steps
     then case AsianOption_hedge_step opt m steps u zs i st of
            Inl e \<Rightarrow> Inl e
          | Inr st' \<Rightarrow> AsianOption_hedge_loop opt m steps u zs (i + 1) st'
     else Inr st)"
  by pat_completeness auto
termination
  by (relation "measure (\<lambda>(opt, m, steps, u, zs, i, st). nat (steps - i))") auto

text \<open>The state in which the loop of \<open>hedgeCost\<close> ends.\<close>

definition AsianOption_hedge_run ::
  "AsianOption \<Rightarrow> BlackScholesModel \<Rightarrow> int \<Rightarrow> (nat \<Rightarrow> real) \<Rightarrow> (int \<Rightarrow> bool \<Rightarrow> draws)
     \<Rightarrow> error + HedgeState" where
  "AsianOption_hedge_run opt m steps u zs =
    (case AsianOption_hedge_init opt m steps zs of
       Inl e \<Rightarrow> Inl e
     | Inr st \<Rightarrow> AsianOption_hedge_loop opt m steps u zs 1 st)"


subsection \<open>\<open>BarrierOption\<close>\<close>

definition BarrierOption_payoff :: "BarrierOption \<Rightarrow> double \<Rightarrow> double" where
  "BarrierOption_payoff opt spot0 =
    (if BarrierOption.optionType opt = Call
     then std_max (spot0 - strike opt) (Num 0)
     else std_max (strike opt - spot0) (Num 0))"

text \<open>The two scanning loops of \<open>isBarrierTouched\<close>, from index \<open>i\<close>.\<close>

function crossed_up :: "double \<Rightarrow> double list \<Rightarrow> nat \<Rightarrow> bool" where
  "crossed_up b path i =
    (if i < length path
     then (if path ! (i - 1) < b \<and> path ! i \<ge> b then True else crossed_up b path (i + 1))
     else False)"
  by pat_completeness auto
termination
  by (relation "measure (\<lambda>(b, path, i). length path - i)") auto

function crossed_down :: "double \<Rightarrow> double list \<Rightarrow> nat \<Rightarrow> bool" where
  "crossed_down b path i =
    (if i < length path
     then (if path ! (i - 1) > b \<and> path ! i \<le> b then True else crossed_down b path (i + 1))
     else False)"
  by pat_completeness auto
termination
  by (relation "measure (\<lambda>(b, path, i). length path - i)") auto

definition BarrierOption_isBarrierTouched :: "BarrierOption \<Rightarrow> double list \<Rightarrow> bool" where
  "BarrierOption_isBarrierTouched opt path =
    (case barrierType opt of
       UpAndOut \<Rightarrow> crossed_up (barrier opt) path 1
     | UpAndIn \<Rightarrow> crossed_up (barrier opt) path 1
     | DownAndOut \<Rightarrow> crossed_down (barrier opt) path 1
     | DownAndIn \<Rightarrow> crossed_down (barrier opt) path 1)"

definition BarrierOption_path ::
  "BlackScholesModel \<Rightarrow> double \<Rightarrow> (nat \<Rightarrow> real) \<Rightarrow> int \<Rightarrow> error + double list" where
  "BarrierOption_path m dt z steps =
    (case reserve steps of
       Inl e \<Rightarrow> Inl e
     | Inr _ \<Rightarrow> Inr (snd (path_loop m dt z steps 0 (spot m) [])))"

text \<open>What one path adds to \<open>sumPayoffs\<close>: the \<open>if\<close> chain at the end of the outer loop.\<close>

definition BarrierOption_path_payoff :: "BarrierOption \<Rightarrow> double list \<Rightarrow> error + double" where
  "BarrierOption_path_payoff opt path =
    (let touched = BarrierOption_isBarrierTouched opt path
     in if (barrierType opt = UpAndOut \<or> barrierType opt = DownAndOut) \<and> touched
        then Inr (Num 0)
        else if (barrierType opt = UpAndIn \<or> barrierType opt = DownAndIn) \<and> \<not> touched
        then Inr (Num 0)
        else case vector_back path of
               Inl e \<Rightarrow> Inl e
             | Inr x \<Rightarrow> Inr (BarrierOption_payoff opt x))"

function BarrierOption_price_loop ::
  "BarrierOption \<Rightarrow> BlackScholesModel \<Rightarrow> int \<Rightarrow> int \<Rightarrow> double \<Rightarrow> draws \<Rightarrow> int \<Rightarrow> double
     \<Rightarrow> error + double" where
  "BarrierOption_price_loop opt m numPaths steps dt z i sumPayoffs =
    (if i < numPaths
     then case BarrierOption_path m dt (z (nat i)) steps of
            Inl e \<Rightarrow> Inl e
          | Inr path \<Rightarrow>
              (case BarrierOption_path_payoff opt path of
                 Inl e \<Rightarrow> Inl e
               | Inr p \<Rightarrow>
                   BarrierOption_price_loop opt m numPaths steps dt z (i + 1) (sumPayoffs + p))
     else Inr sumPayoffs)"
  by pat_completeness auto
termination
  by (relation "measure (\<lambda>(opt, m, numPaths, steps, dt, z, i, sumPayoffs). nat (numPaths - i))") auto

definition BarrierOption_price_adjusted ::
  "BarrierOption \<Rightarrow> BlackScholesModel \<Rightarrow> int \<Rightarrow> int \<Rightarrow> double \<Rightarrow> draws \<Rightarrow> error + double" where
  "BarrierOption_price_adjusted opt m numPaths steps adjustedMaturity z =
    (let dt = adjustedMaturity / of_int_d steps
     in case BarrierOption_price_loop opt m numPaths steps dt z 0 (Num 0) of
          Inl e \<Rightarrow> Inl e
        | Inr sumPayoffs \<Rightarrow>
            Inr (std_exp (- rate m * adjustedMaturity) * (sumPayoffs / of_int_d numPaths)))"


definition BarrierOption_price_adjusted_traced ::
  "BarrierOption \<Rightarrow> BlackScholesModel \<Rightarrow> int \<Rightarrow> int \<Rightarrow> double \<Rightarrow> draws
     \<Rightarrow> (error + double) \<times> PriceCall" where
  "BarrierOption_price_adjusted_traced opt m numPaths steps adjustedMaturity z =
    (BarrierOption_price_adjusted opt m numPaths steps adjustedMaturity z,
     \<lparr>pc_model = m, pc_numPaths = numPaths, pc_steps = steps,
      pc_adjustedMaturity = adjustedMaturity\<rparr>)"

definition BarrierOption_price_traced ::
  "BarrierOption \<Rightarrow> BlackScholesModel \<Rightarrow> int \<Rightarrow> int \<Rightarrow> draws \<Rightarrow> (error + double) \<times> PriceCall" where
  "BarrierOption_price_traced opt m numPaths steps z =
    BarrierOption_price_adjusted_traced opt m numPaths steps (maturity opt) z"

definition BarrierOption_hedge_init ::
  "BarrierOption \<Rightarrow> BlackScholesModel \<Rightarrow> int \<Rightarrow> (int \<Rightarrow> bool \<Rightarrow> draws) \<Rightarrow> error + HedgeState" where
  "BarrierOption_hedge_init opt m steps zs =
    (let numPaths = 10000;
         epsilon = hedge_epsilon m;
         modelUp = m\<lparr>spot := spot m + epsilon\<rparr>;
         (rUp, cUp) = BarrierOption_price_traced opt modelUp numPaths steps (zs 0 True)
     in case rUp of Inl e \<Rightarrow> Inl e | Inr priceUp \<Rightarrow>
        let modelDown = m\<lparr>spot := spot m - epsilon\<rparr>;
            (rDown, cDown) = BarrierOption_price_traced opt modelDown numPaths steps (zs 0 False)
        in case rDown of Inl e \<Rightarrow> Inl e | Inr priceDown \<Rightarrow>
          let delta = (priceUp - priceDown) / (Num 2 * epsilon);
              spot0 = spot m;
              cash = delta * spot0;
              path = [spot0];
              barrierTouched = BarrierOption_isBarrierTouched opt path
          in Inr \<lparr>hs_spot = spot0, hs_path = path, hs_modelUp = modelUp,
                  hs_modelDown = modelDown, hs_delta = delta, hs_cash = cash,
                  hs_barrierTouched = barrierTouched, hs_calls = [(0, cUp), (0, cDown)]\<rparr>)"

definition BarrierOption_hedge_step ::
  "BarrierOption \<Rightarrow> BlackScholesModel \<Rightarrow> int \<Rightarrow> (nat \<Rightarrow> real) \<Rightarrow> (int \<Rightarrow> bool \<Rightarrow> draws) \<Rightarrow> int
     \<Rightarrow> HedgeState \<Rightarrow> error + HedgeState" where
  "BarrierOption_hedge_step opt m steps u zs i st =
    (let numPaths = 10000;
         epsilon = hedge_epsilon m;
         dt = maturity opt / of_int_d steps;
         adjustedMaturity = maturity opt - of_int_d i * dt;
         spot1 = simulate_step m dt (Num (u (nat (i - 1))) - Num 0.5) (hs_spot st);
         path = hs_path st @ [spot1];
         barrierTouched = BarrierOption_isBarrierTouched opt path;
         previousDelta = hs_delta st
     in if barrierTouched
        then let delta = Num 0;
                 cash = hs_cash st + (delta - previousDelta) * spot1;
                 cash = cash * std_exp (rate m * dt)
             in Inr (st\<lparr>hs_spot := spot1, hs_path := path, hs_delta := delta, hs_cash := cash,
                         hs_barrierTouched := barrierTouched\<rparr>)
        else let modelUp = (hs_modelUp st)\<lparr>spot := spot1 + epsilon\<rparr>;
                 modelDown = (hs_modelDown st)\<lparr>spot := spot1 - epsilon\<rparr>;
                 (rUp, cUp) = BarrierOption_price_adjusted_traced opt modelUp numPaths (steps - i)
                                adjustedMaturity (zs i True)
             in case rUp of Inl e \<Rightarrow> Inl e | Inr priceUp \<Rightarrow>
                let (rDown, cDown) = BarrierOption_price_adjusted_traced opt modelDown numPaths
                                       (steps - i) adjustedMaturity (zs i False)
                in case rDown of Inl e \<Rightarrow> Inl e | Inr priceDown \<Rightarrow>
                   let delta = (priceUp - priceDown) / (Num 2 * epsilon);
                       cash = hs_cash st + (delta - previousDelta) * spot1;
                       cash = cash * std_exp (rate m * dt)
                   in Inr (st\<lparr>hs_spot := spot1, hs_path := path, hs_modelUp := modelUp,
                               hs_modelDown := modelDown, hs_delta := delta, hs_cash := cash,
                               hs_barrierTouched := barrierTouched,
                               hs_calls := hs_calls st @ [(i, cUp), (i, cDown)]\<rparr>))"

function BarrierOption_hedge_loop ::
  "BarrierOption \<Rightarrow> BlackScholesModel \<Rightarrow> int \<Rightarrow> (nat \<Rightarrow> real) \<Rightarrow> (int \<Rightarrow> bool \<Rightarrow> draws) \<Rightarrow> int
     \<Rightarrow> HedgeState \<Rightarrow> error + HedgeState" where
  "BarrierOption_hedge_loop opt m steps u zs i st =
    (if i < steps
     then case BarrierOption_hedge_step opt m steps u zs i st of
            Inl e \<Rightarrow> Inl e
          | Inr st' \<Rightarrow> BarrierOption_hedge_loop opt m steps u zs (i + 1) st'
     else Inr st)"
  by pat_completeness auto
termination
  by (relation "measure (\<lambda>(opt, m, steps, u, zs, i, st). nat (steps - i))") auto

definition BarrierOption_hedge_run ::
  "BarrierOption \<Rightarrow> BlackScholesModel \<Rightarrow> int \<Rightarrow> (nat \<Rightarrow> real) \<Rightarrow> (int \<Rightarrow> bool \<Rightarrow> draws)
     \<Rightarrow> error + HedgeState" where
  "BarrierOption_hedge_run opt m steps u zs =
    (case BarrierOption_hedge_init opt m steps zs of
       Inl e \<Rightarrow> Inl e
     | Inr st \<Rightarrow> BarrierOption_hedge_loop opt m steps u zs 1 st)"

definition BarrierOption_hedgeCost ::
  "BarrierOption \<Rightarrow> BlackScholesModel \<Rightarrow> int \<Rightarrow> (nat \<Rightarrow> real) \<Rightarrow> (int \<Rightarrow> bool \<Rightarrow> draws)
     \<Rightarrow> error + double" where
  "BarrierOption_hedgeCost opt m steps u zs =
    (case BarrierOption_hedge_run opt m steps u zs of
       Inl e \<Rightarrow> Inl e
     | Inr st \<Rightarrow>
         (let finalPayoff = BarrierOption_payoff opt (hs_spot st);
              cash = (if (barrierType opt = UpAndIn \<or> barrierType opt = DownAndIn)
                         \<and> hs_barrierTouched st
                      then hs_cash st + finalPayoff
                      else if (barrierType opt = UpAndOut \<or> barrierType opt = DownAndOut)
                         \<and> \<not> hs_barrierTouched st
                      then hs_cash st + finalPayoff
                      else hs_cash st)
          in Inr (cash - hs_delta st * hs_spot st)))"

subsection \<open>\<open>LookbackOption\<close>\<close>

definition LookbackOption_payoff :: "LookbackOption \<Rightarrow> double list \<Rightarrow> error + double" where
  "LookbackOption_payoff opt path =
    (if LookbackOption.optionType opt = Call
     then case max_element path of
            Inl e \<Rightarrow> Inl e
          | Inr maxPrice \<Rightarrow> Inr (std_max (maxPrice - strike opt) (Num 0))
     else case min_element path of
            Inl e \<Rightarrow> Inl e
          | Inr minPrice \<Rightarrow> Inr (std_max (strike opt - minPrice) (Num 0)))"

definition LookbackOption_payoff_spot :: "LookbackOption \<Rightarrow> double \<Rightarrow> error + double" where
  "LookbackOption_payoff_spot opt spot0 =
    Inl (logic_error ''payoff(double spot) is not applicable for LookbackOption.'')"

definition LookbackOption_path ::
  "BlackScholesModel \<Rightarrow> double \<Rightarrow> (nat \<Rightarrow> real) \<Rightarrow> int \<Rightarrow> error + double list" where
  "LookbackOption_path m dt z steps =
    (case reserve (steps + 1) of
       Inl e \<Rightarrow> Inl e
     | Inr _ \<Rightarrow> Inr (snd (path_loop m dt z steps 0 (spot m) [spot m])))"

function LookbackOption_price_loop ::
  "LookbackOption \<Rightarrow> BlackScholesModel \<Rightarrow> int \<Rightarrow> int \<Rightarrow> double \<Rightarrow> draws \<Rightarrow> int \<Rightarrow> double
     \<Rightarrow> error + double" where
  "LookbackOption_price_loop opt m numPaths steps dt z i sumPayoffs =
    (if i < numPaths
     then case LookbackOption_path m dt (z (nat i)) steps of
            Inl e \<Rightarrow> Inl e
          | Inr path \<Rightarrow>
              (case LookbackOption_payoff opt path of
                 Inl e \<Rightarrow> Inl e
               | Inr p \<Rightarrow>
                   LookbackOption_price_loop opt m numPaths steps dt z (i + 1) (sumPayoffs + p))
     else Inr sumPayoffs)"
  by pat_completeness auto
termination
  by (relation "measure (\<lambda>(opt, m, numPaths, steps, dt, z, i, sumPayoffs). nat (numPaths - i))") auto

definition LookbackOption_price_adjusted ::
  "LookbackOption \<Rightarrow> BlackScholesModel \<Rightarrow> int \<Rightarrow> int \<Rightarrow> double \<Rightarrow> draws \<Rightarrow> error + double" where
  "LookbackOption_price_adjusted opt m numPaths steps adjustedMaturity z =
    (let dt = adjustedMaturity / of_int_d steps
     in case LookbackOption_price_loop opt m numPaths steps dt z 0 (Num 0) of
          Inl e \<Rightarrow> Inl e
        | Inr sumPayoffs \<Rightarrow>
            Inr (std_exp (- rate m * adjustedMaturity) * (sumPayoffs / of_int_d numPaths)))"


definition LookbackOption_price_adjusted_traced ::
  "LookbackOption \<Rightarrow> BlackScholesModel \<Rightarrow> int \<Rightarrow> int \<Rightarrow> double \<Rightarrow> draws
     \<Rightarrow> (error + double) \<times> PriceCall" where
  "LookbackOption_price_adjusted_traced opt m numPaths steps adjustedMaturity z =
    (LookbackOption_price_adjusted opt m numPaths steps adjustedMaturity z,
     \<lparr>pc_model = m, pc_numPaths = numPaths, pc_steps = steps,
      pc_adjustedMaturity = adjustedMaturity\<rparr>)"

definition LookbackOption_price_traced ::
  "LookbackOption \<Rightarrow> BlackScholesModel \<Rightarrow> int \<Rightarrow> int \<Rightarrow> draws \<Rightarrow> (error + double) \<times> PriceCall" where
  "LookbackOption_price_traced opt m numPaths steps z =
    LookbackOption_price_adjusted_traced opt m numPaths steps (maturity opt) z"

definition LookbackOption_hedge_init ::
  "LookbackOption \<Rightarrow> BlackScholesModel \<Rightarrow> int \<Rightarrow> (int \<Rightarrow> bool \<Rightarrow> draws) \<Rightarrow> error + HedgeState" where
  "LookbackOption_hedge_init opt m steps zs =
    (let numPaths = 10000;
         epsilon = hedge_epsilon m;
         modelUp = m\<lparr>spot := spot m + epsilon\<rparr>;
         modelDown = m\<lparr>spot := spot m - epsilon\<rparr>;
         (rUp, cUp) = LookbackOption_price_traced opt modelUp numPaths steps (zs 0 True);
         (rDown, cDown) = LookbackOption_price_traced opt modelDown numPaths steps (zs 0 False)
     in case rUp of Inl e \<Rightarrow> Inl e | Inr priceUp \<Rightarrow>
        case rDown of Inl e \<Rightarrow> Inl e | Inr priceDown \<Rightarrow>
          let delta = (priceUp - priceDown) / (Num 2 * epsilon);
              spot0 = spot m;
              cash = delta * spot0
          in Inr \<lparr>hs_spot = spot0, hs_path = [spot0], hs_modelUp = modelUp,
                  hs_modelDown = modelDown, hs_delta = delta, hs_cash = cash,
                  hs_barrierTouched = False, hs_calls = [(0, cUp), (0, cDown)]\<rparr>)"

definition LookbackOption_hedge_step ::
  "LookbackOption \<Rightarrow> BlackScholesModel \<Rightarrow> int \<Rightarrow> (nat \<Rightarrow> real) \<Rightarrow> (int \<Rightarrow> bool \<Rightarrow> draws) \<Rightarrow> int
     \<Rightarrow> HedgeState \<Rightarrow> error + HedgeState" where
  "LookbackOption_hedge_step opt m steps u zs i st =
    (let numPaths = 10000;
         epsilon = hedge_epsilon m;
         dt = maturity opt / of_int_d steps;
         adjustedMaturity = maturity opt - of_int_d i * dt;
         spot1 = simulate_step m dt (Num (u (nat (i - 1))) - Num 0.5) (hs_spot st);
         path = hs_path st @ [spot1];
         previousDelta = hs_delta st;
         modelUp = (hs_modelUp st)\<lparr>spot := spot1 + epsilon\<rparr>;
         modelDown = (hs_modelDown st)\<lparr>spot := spot1 - epsilon\<rparr>;
         (rUp, cUp) = LookbackOption_price_traced opt modelUp numPaths (steps - i) (zs i True);
         (rDown, cDown) = LookbackOption_price_traced opt modelDown numPaths (steps - i) (zs i False)
     in case rUp of Inl e \<Rightarrow> Inl e | Inr priceUp \<Rightarrow>
        case rDown of Inl e \<Rightarrow> Inl e | Inr priceDown \<Rightarrow>
          let delta = (priceUp - priceDown) / (Num 2 * epsilon);
              cash = hs_cash st + (delta - previousDelta) * spot1;
              cash = cash * std_exp (rate m * dt)
          in Inr (st\<lparr>hs_spot := spot1, hs_path := path, hs_modelUp := modelUp,
                      hs_modelDown := modelDown, hs_delta := delta, hs_cash := cash,
                      hs_calls := hs_calls st @ [(i, cUp), (i, cDown)]\<rparr>))"

function LookbackOption_hedge_loop ::
  "LookbackOption \<Rightarrow> BlackScholesModel \<Rightarrow> int \<Rightarrow> (nat \<Rightarrow> real) \<Rightarrow> (int \<Rightarrow> bool \<Rightarrow> draws) \<Rightarrow> int
     \<Rightarrow> HedgeState \<Rightarrow> error + HedgeState" where
  "LookbackOption_hedge_loop opt m steps u zs i st =
    (if i < steps
     then case LookbackOption_hedge_step opt m steps u zs i st of
            Inl e \<Rightarrow> Inl e
          | Inr st' \<Rightarrow> LookbackOption_hedge_loop opt m steps u zs (i + 1) st'
     else Inr st)"
  by pat_completeness auto
termination
  by (relation "measure (\<lambda>(opt, m, steps, u, zs, i, st). nat (steps - i))") auto

definition LookbackOption_hedge_run ::
  "LookbackOption \<Rightarrow> BlackScholesModel \<Rightarrow> int \<Rightarrow> (nat \<Rightarrow> real) \<Rightarrow> (int \<Rightarrow> bool \<Rightarrow> draws)
     \<Rightarrow> error + HedgeState" where
  "LookbackOption_hedge_run opt m steps u zs =
    (case LookbackOption_hedge_init opt m steps zs of
       Inl e \<Rightarrow> Inl e
     | Inr st \<Rightarrow> LookbackOption_hedge_loop opt m steps u zs 1 st)"

definition LookbackOption_hedgeCost ::
  "LookbackOption \<Rightarrow> BlackScholesModel \<Rightarrow> int \<Rightarrow> (nat \<Rightarrow> real) \<Rightarrow> (int \<Rightarrow> bool \<Rightarrow> draws)
     \<Rightarrow> error + double" where
  "LookbackOption_hedgeCost opt m steps u zs =
    (case LookbackOption_hedge_run opt m steps u zs of
       Inl e \<Rightarrow> Inl e
     | Inr st \<Rightarrow>
         (case LookbackOption_payoff opt (hs_path st) of
            Inl e \<Rightarrow> Inl e
          | Inr p \<Rightarrow> Inr (hs_cash st - hs_delta st * hs_spot st + p)))"

subsection \<open>\<open>CallOption\<close> and \<open>PutOption\<close>\<close>

type_synonym CallOption = Option
type_synonym PutOption = Option

definition CallOption_payoff :: "CallOption \<Rightarrow> double \<Rightarrow> double" where
  "CallOption_payoff opt spot0 = std_max (spot0 - strike opt) (Num 0)"

definition PutOption_payoff :: "PutOption \<Rightarrow> double \<Rightarrow> double" where
  "PutOption_payoff opt spot0 = std_max (strike opt - spot0) (Num 0)"

text \<open>The local variables of the vanilla \<open>hedgeCost\<close> loop.\<close>

record VanillaState =
  vs_spot :: double
  vs_previousDelta :: double
  vs_d1 :: double
  vs_currentDelta :: double
  vs_cash :: double

definition CallOption_hedge_init :: "CallOption \<Rightarrow> BlackScholesModel \<Rightarrow> VanillaState" where
  "CallOption_hedge_init opt m =
    (let spot0 = spot m;
         previousDelta = Num 0;
         d1 = (std_log (spot0 / strike opt) +
                 (rate m - dividend m + Num 0.5 * volatility m * volatility m) * maturity opt) /
              (volatility m * std_sqrt (maturity opt));
         currentDelta = std_exp (- dividend m * maturity opt) * Num 0.5 *
                          (Num 1 + std_erf (d1 / std_sqrt (Num 2)));
         cash = currentDelta * spot0
     in \<lparr>vs_spot = spot0, vs_previousDelta = previousDelta, vs_d1 = d1,
         vs_currentDelta = currentDelta, vs_cash = cash\<rparr>)"

definition CallOption_hedge_step ::
  "CallOption \<Rightarrow> BlackScholesModel \<Rightarrow> int \<Rightarrow> (nat \<Rightarrow> real) \<Rightarrow> int \<Rightarrow> VanillaState \<Rightarrow> VanillaState" where
  "CallOption_hedge_step opt m steps u i st =
    (let dt = maturity opt / of_int_d steps;
         time = of_int_d i * dt;
         spot1 = (if i < steps
                  then simulate_step m dt (Num (u (nat (i - 1))) - Num 0.5) (vs_spot st)
                  else vs_spot st);
         previousDelta = vs_currentDelta st;
         d1 = (std_log (spot1 / strike opt) +
                 (rate m - dividend m + Num 0.5 * volatility m * volatility m) *
                   (maturity opt - time)) /
              (volatility m * std_sqrt (maturity opt - time));
         currentDelta = std_exp (- dividend m * (maturity opt - time)) * Num 0.5 *
                          (Num 1 + std_erf (d1 / std_sqrt (Num 2)));
         cash = vs_cash st + (currentDelta - previousDelta) * spot1;
         cash = cash * std_exp (rate m * dt)
     in \<lparr>vs_spot = spot1, vs_previousDelta = previousDelta, vs_d1 = d1,
         vs_currentDelta = currentDelta, vs_cash = cash\<rparr>)"

function CallOption_hedge_loop ::
  "CallOption \<Rightarrow> BlackScholesModel \<Rightarrow> int \<Rightarrow> (nat \<Rightarrow> real) \<Rightarrow> int \<Rightarrow> VanillaState \<Rightarrow> VanillaState" where
  "CallOption_hedge_loop opt m steps u i st =
    (if i \<le> steps
     then CallOption_hedge_loop opt m steps u (i + 1) (CallOption_hedge_step opt m steps u i st)
     else st)"
  by pat_completeness auto
termination
  by (relation "measure (\<lambda>(opt, m, steps, u, i, st). nat (steps + 1 - i))") auto

definition CallOption_hedgeCost ::
  "CallOption \<Rightarrow> BlackScholesModel \<Rightarrow> int \<Rightarrow> (nat \<Rightarrow> real) \<Rightarrow> double" where
  "CallOption_hedgeCost opt m steps u =
    (let st = CallOption_hedge_loop opt m steps u 1 (CallOption_hedge_init opt m)
     in vs_cash st - vs_currentDelta st * vs_spot st + CallOption_payoff opt (vs_spot st))"

definition PutOption_hedge_init :: "PutOption \<Rightarrow> BlackScholesModel \<Rightarrow> VanillaState" where
  "PutOption_hedge_init opt m =
    (let spot0 = spot m;
         previousDelta = Num 0;
         d1 = (std_log (spot0 / strike opt) +
                 (rate m - dividend m + Num 0.5 * volatility m * volatility m) * maturity opt) /
              (volatility m * std_sqrt (maturity opt));
         currentDelta = std_exp (- dividend m * maturity opt) *
                          (Num 0.5 * (Num 1 + std_erf (d1 / std_sqrt (Num 2))) - Num 1);
         cash = currentDelta * spot0
     in \<lparr>vs_spot = spot0, vs_previousDelta = previousDelta, vs_d1 = d1,
         vs_currentDelta = currentDelta, vs_cash = cash\<rparr>)"

definition PutOption_hedge_step ::
  "PutOption \<Rightarrow> BlackScholesModel \<Rightarrow> int \<Rightarrow> (nat \<Rightarrow> real) \<Rightarrow> int \<Rightarrow> VanillaState \<Rightarrow> VanillaState" where
  "PutOption_hedge_step opt m steps u i st =
    (let dt = maturity opt / of_int_d steps;
         time = of_int_d i * dt;
         spot1 = (if i < steps
                  then simulate_step m dt (Num (u (nat (i - 1))) - Num 0.5) (vs_spot st)
                  else vs_spot st);
         previousDelta = vs_currentDelta st;
         d1 = (std_log (spot1 / strike opt) +
                 (rate m - dividend m + Num 0.5 * volatility m * volatility m) *
                   (maturity opt - time)) /
              (volatility m * std_sqrt (maturity opt - time));
         currentDelta = std_exp (- dividend m * (maturity opt - time)) *
                          (Num 0.5 * (Num 1 + std_erf (d1 / std_sqrt (Num 2))) - Num 1);
         cash = vs_cash st + (currentDelta - previousDelta) * spot1;
         cash = cash * std_exp (rate m * dt)
     in \<lparr>vs_spot = spot1, vs_previousDelta = previousDelta, vs_d1 = d1,
         vs_currentDelta = currentDelta, vs_cash = cash\<rparr>)"

function PutOption_hedge_loop ::
  "PutOption \<Rightarrow> BlackScholesModel \<Rightarrow> int \<Rightarrow> (nat \<Rightarrow> real) \<Rightarrow> int \<Rightarrow> VanillaState \<Rightarrow> VanillaState" where
  "PutOption_hedge_loop opt m steps u i st =
    (if i \<le> steps
     then PutOption_hedge_loop opt m steps u (i + 1) (PutOption_hedge_step opt m steps u i st)
     else st)"
  by pat_completeness auto
termination
  by (relation "measure (\<lambda>(opt, m, steps, u, i, st). nat (steps + 1 - i))") auto

definition PutOption_hedgeCost ::
  "PutOption \<Rightarrow> BlackScholesModel \<Rightarrow> int \<Rightarrow> (nat \<Rightarrow> real) \<Rightarrow> double" where
  "PutOption_hedgeCost opt m steps u =
    (let st = PutOption_hedge_loop opt m steps u 1 (PutOption_hedge_init opt m)
     in vs_cash st - vs_currentDelta st * vs_spot st + PutOption_payoff opt (vs_spot st))"

section \<open>The specification's formulas, call traces and loop invariants\<close>

text \<open>
  The price recursion of the specification,
  \<open>S\<^sub>0 = model.spot\<close>, \<open>S\<^sub>j\<^sub>+\<^sub>1 = S\<^sub>j * exp((rate - dividend - 0.5*volatility^2)*dt + volatility*sqrt(dt)*Z\<^sub>j)\<close>,
  on doubles (\<open>sim_spot\<close>, for a pricing path with normal draws \<open>z\<close>;
  \<open>hedge_spot\<close>, for the trajectory of \<open>hedgeCost\<close> with its perturbation
  \<open>rand()/RAND_MAX - 0.5\<close>) and on reals (\<open>gbm_spot\<close>).
\<close>

primrec sim_spot :: "BlackScholesModel \<Rightarrow> double \<Rightarrow> (nat \<Rightarrow> real) \<Rightarrow> nat \<Rightarrow> double" where
  "sim_spot m dt z 0 = spot m"
| "sim_spot m dt z (Suc j) = simulate_step m dt (Num (z j)) (sim_spot m dt z j)"

primrec hedge_spot :: "BlackScholesModel \<Rightarrow> double \<Rightarrow> (nat \<Rightarrow> real) \<Rightarrow> nat \<Rightarrow> double" where
  "hedge_spot m dt u 0 = spot m"
| "hedge_spot m dt u (Suc i) = simulate_step m dt (Num (u i) - Num 0.5) (hedge_spot m dt u i)"


text \<open>
  The two pricer invocations of rebalancing step \<open>k\<close> of a \<open>hedgeCost\<close> run, as the
  loop makes them: the model bumped by \<open>eps\<close> up and down around the step's spot \<open>S k\<close>,
  10000 paths, the reduced step count, and the horizon \<open>hor k\<close>.
\<close>

definition hedge_calls ::
  "BlackScholesModel \<Rightarrow> int \<Rightarrow> double \<Rightarrow> (nat \<Rightarrow> double) \<Rightarrow> (nat \<Rightarrow> double) \<Rightarrow> nat
     \<Rightarrow> (int \<times> PriceCall) list" where
  "hedge_calls m steps eps hor S k =
    [(int k, \<lparr>pc_model = m\<lparr>spot := S k + eps\<rparr>, pc_numPaths = 10000,
              pc_steps = steps - int k, pc_adjustedMaturity = hor k\<rparr>),
     (int k, \<lparr>pc_model = m\<lparr>spot := S k - eps\<rparr>, pc_numPaths = 10000,
              pc_steps = steps - int k, pc_adjustedMaturity = hor k\<rparr>)]"

text \<open>The loop invariant of the Asian and lookback \<open>hedgeCost\<close> when \<open>n\<close> spots
  have been recorded (at the head of iteration \<open>i = n\<close>).\<close>

definition hedge_inv ::
  "BlackScholesModel \<Rightarrow> int \<Rightarrow> double \<Rightarrow> (nat \<Rightarrow> double) \<Rightarrow> (nat \<Rightarrow> double) \<Rightarrow> nat
     \<Rightarrow> HedgeState \<Rightarrow> bool" where
  "hedge_inv m steps eps hor S n st =
    (hs_spot st = S (n - 1) \<and>
     hs_path st = map S [0..<n] \<and>
     hs_modelUp st = m\<lparr>spot := S (n - 1) + eps\<rparr> \<and>
     hs_modelDown st = m\<lparr>spot := S (n - 1) - eps\<rparr> \<and>
     hs_calls st = concat (map (hedge_calls m steps eps hor S) [0..<n]))"

text \<open>The same for the barrier \<open>hedgeCost\<close>, which prices only while the barrier is
  untouched on the trajectory so far.\<close>

definition barrier_hedge_calls ::
  "BarrierOption \<Rightarrow> BlackScholesModel \<Rightarrow> int \<Rightarrow> double \<Rightarrow> (nat \<Rightarrow> double) \<Rightarrow> (nat \<Rightarrow> double) \<Rightarrow> nat
     \<Rightarrow> (int \<times> PriceCall) list" where
  "barrier_hedge_calls opt m steps eps hor S k =
    (if BarrierOption_isBarrierTouched opt (map S [0..<Suc k]) then []
     else hedge_calls m steps eps hor S k)"

definition barrier_hedge_inv ::
  "BarrierOption \<Rightarrow> BlackScholesModel \<Rightarrow> int \<Rightarrow> double \<Rightarrow> (nat \<Rightarrow> double) \<Rightarrow> (nat \<Rightarrow> double) \<Rightarrow> nat
     \<Rightarrow> HedgeState \<Rightarrow> bool" where
  "barrier_hedge_inv opt m steps eps hor S n st =
    (hs_spot st = S (n - 1) \<and>
     hs_path st = map S [0..<n] \<and>
     hs_barrierTouched st = BarrierOption_isBarrierTouched opt (map S [0..<n]) \<and>
     (\<exists>x. hs_modelUp st = m\<lparr>spot := x\<rparr>) \<and>
     (\<exists>x. hs_modelDown st = m\<lparr>spot := x\<rparr>) \<and>
     hs_calls st = concat (map (barrier_hedge_calls opt m steps eps hor S) [0..<n]))"

text \<open>The horizon of the barrier \<open>hedgeCost\<close>'s pricer calls: the option's maturity for
  the initial delta, \<open>maturity - i * dt\<close> at rebalancing step \<open>i\<close>.\<close>

definition barrier_horizon :: "BarrierOption \<Rightarrow> int \<Rightarrow> nat \<Rightarrow> double" where
  "barrier_horizon opt steps k =
    (if k = 0 then maturity opt
     else maturity opt - of_int_d (int k) * (maturity opt / of_int_d steps))"











text \<open>What a \<open>hedgeCost\<close> run passed to the pricer: for each invocation, the rebalancing
  step, the step count and the horizon; and the spot of the bumped model.\<close>

definition call_args :: "error + HedgeState \<Rightarrow> error + (int \<times> int \<times> double) list" where
  "call_args r =
    (case r of
       Inl e \<Rightarrow> Inl e
     | Inr st \<Rightarrow> Inr (map (\<lambda>(i, c). (i, pc_steps c, pc_adjustedMaturity c)) (hs_calls st)))"



section \<open>Properties\<close>

lemma summable_erf_term: "summable (erf_term x)"
proof (rule summable_comparison_test')
  show "summable (\<lambda>n. \<bar>x\<bar> * (inverse (fact n) * (x\<^sup>2) ^ n))"
    by (intro summable_mult summable_exp)
next
  fix n :: nat
  assume "n \<ge> 0"
  have "norm (erf_term x n) = \<bar>x\<bar> * (x\<^sup>2) ^ n / (fact n * real (2 * n + 1))"
    by (simp add: erf_term_def power_abs abs_mult power_mult power2_eq_square
        flip: power_mult_distrib)
  also have "\<dots> \<le> \<bar>x\<bar> * (x\<^sup>2) ^ n / (fact n * 1)"
    by (intro divide_left_mono mult_left_mono mult_nonneg_nonneg mult_pos_pos) auto
  finally show "norm (erf_term x n) \<le> \<bar>x\<bar> * (inverse (fact n) * (x\<^sup>2) ^ n)"
    by (simp add: field_simps)
qed

lemma erf_minus: "erf (- x) = - erf x"
proof -
  have "erf_term (- x) n = - erf_term x n" for n
    by (simp add: erf_term_def)
  then have "(\<Sum>n. erf_term (- x) n) = (\<Sum>n. - erf_term x n)"
    by simp
  also have "\<dots> = - (\<Sum>n. erf_term x n)"
    by (rule suminf_minus [OF summable_erf_term])
  finally show ?thesis
    by (simp add: erf_def)
qed

lemma erfc_reflect: "erfc (- x) + erfc x = 2"
  by (simp add: erfc_def erf_minus)

lemma normalCDF_Num: "normalCDF (Num a) = Num (0.5 * erfc (- a / sqrt 2))"
  by (simp add: normalCDF_def M_SQRT1_2_def)

lemma normalCDF_reflect:
  "normalCDF (Num a) = Num p \<Longrightarrow> normalCDF (Num (- a)) = Num (1 - p)"
  using erfc_reflect [of "a / sqrt 2"] by (simp add: normalCDF_Num)

lemma priceAnalytic_Num:
  fixes s v k t r q :: real
  assumes "0 < s" "0 < v" "0 < k" "0 < t"
  shows "\<exists>p1 p2.
     priceAnalytic \<lparr>spot = Num s, rate = Num r, volatility = Num v, dividend = Num q\<rparr>
           \<lparr>strike = Num k, maturity = Num t\<rparr> True =
       Num (s * exp (- q * t) * p1 - k * exp (- r * t) * p2) \<and>
     priceAnalytic \<lparr>spot = Num s, rate = Num r, volatility = Num v, dividend = Num q\<rparr>
           \<lparr>strike = Num k, maturity = Num t\<rparr> False =
       Num (k * exp (- r * t) * (1 - p2) - s * exp (- q * t) * (1 - p1))"
proof -
  define d1 where "d1 = (ln (s / k) + (r - q + 0.5 * v * v) * t) / (v * sqrt t)"
  define d2 where "d2 = d1 - v * sqrt t"
  have D1: "(std_log (Num s / Num k) + (Num r - Num q + Num 0.5 * Num v * Num v) * Num t) /
              (Num v * std_sqrt (Num t)) = Num d1"
    using assms by (simp add: d1_def minus_double_def)
  have D2: "Num d1 - Num v * std_sqrt (Num t) = Num d2"
    using assms by (simp add: d2_def minus_double_def)
  define p1 where "p1 = 0.5 * erfc (- d1 / sqrt 2)"
  define p2 where "p2 = 0.5 * erfc (- d2 / sqrt 2)"
  have P1: "normalCDF (Num d1) = Num p1"
    by (simp add: normalCDF_Num p1_def)
  have P2: "normalCDF (Num d2) = Num p2"
    by (simp add: normalCDF_Num p2_def)
  have M1: "normalCDF (- Num d1) = Num (1 - p1)"
    using normalCDF_reflect [OF P1] by simp
  have M2: "normalCDF (- Num d2) = Num (1 - p2)"
    using normalCDF_reflect [OF P2] by simp
  have "priceAnalytic \<lparr>spot = Num s, rate = Num r, volatility = Num v, dividend = Num q\<rparr>
           \<lparr>strike = Num k, maturity = Num t\<rparr> True =
       Num (s * exp (- q * t) * p1 - k * exp (- r * t) * p2)"
    unfolding priceAnalytic_def Let_def BlackScholesModel.simps Option.simps D1 D2 P1 P2 M1 M2
    by (simp add: minus_double_def)
  moreover have "priceAnalytic \<lparr>spot = Num s, rate = Num r, volatility = Num v, dividend = Num q\<rparr>
           \<lparr>strike = Num k, maturity = Num t\<rparr> False =
       Num (k * exp (- r * t) * (1 - p2) - s * exp (- q * t) * (1 - p1))"
    unfolding priceAnalytic_def Let_def BlackScholesModel.simps Option.simps D1 D2 P1 P2 M1 M2
    by (simp add: minus_double_def)
  ultimately show ?thesis by blast
qed

subsection \<open>Arithmetic of finite doubles\<close>

lemma Num_minus [simp]: "Num a - Num b = Num (a - b)"
  by (simp add: minus_double_def)

lemma std_max_Num [simp]: "std_max (Num a) (Num b) = Num (max a b)"
  by (simp add: std_max_def max_def)

lemma of_int_d_Num [simp]: "of_int_d n = Num (real_of_int n)"
  by (simp add: of_int_d_def)



subsection \<open>The simulation loops\<close>

declare path_loop.simps [simp del]

lemma path_loop_snd:
  "0 \<le> j \<Longrightarrow> spot0 = sim_spot m dt z (nat j) \<Longrightarrow>
   snd (path_loop m dt z steps j spot0 path) =
     path @ map (\<lambda>k. sim_spot m dt z (Suc k)) [nat j..<nat steps]"
proof (induction m dt z steps j spot0 path rule: path_loop.induct)
  case (1 m dt z steps j spot0 path)
  show ?case
  proof (cases "j < steps")
    case True
    with "1.prems" have j: "nat (j + 1) = Suc (nat j)" "nat j < nat steps"
      by simp_all
    have "snd (path_loop m dt z steps j spot0 path) =
          snd (path_loop m dt z steps (j + 1) (sim_spot m dt z (Suc (nat j)))
                 (path @ [sim_spot m dt z (Suc (nat j))]))"
      using True "1.prems" by (subst path_loop.simps) (simp add: Let_def)
    also have "\<dots> = (path @ [sim_spot m dt z (Suc (nat j))]) @
                       map (\<lambda>k. sim_spot m dt z (Suc k)) [nat (j + 1)..<nat steps]"
      using "1.IH" [OF True refl] "1.prems" j by simp
    also have "\<dots> = path @ map (\<lambda>k. sim_spot m dt z (Suc k)) [nat j..<nat steps]"
      using j by (simp add: upt_conv_Cons)
    finally show ?thesis .
  next
    case False
    then have "nat steps \<le> nat j" by simp
    with False show ?thesis
      by (subst path_loop.simps) simp
  qed
qed

lemma AsianOption_path_eq:
  "0 \<le> steps \<Longrightarrow>
   AsianOption_path m dt z steps = Inr (map (\<lambda>k. sim_spot m dt z (Suc k)) [0..<nat steps])"
  by (simp add: AsianOption_path_def reserve_def path_loop_snd)

lemma BarrierOption_path_eq:
  "0 \<le> steps \<Longrightarrow>
   BarrierOption_path m dt z steps = Inr (map (\<lambda>k. sim_spot m dt z (Suc k)) [0..<nat steps])"
  by (simp add: BarrierOption_path_def reserve_def path_loop_snd)

lemma LookbackOption_path_eq:
  "0 \<le> steps \<Longrightarrow>
   LookbackOption_path m dt z steps = Inr (map (sim_spot m dt z) [0..<Suc (nat steps)])"
proof -
  assume "0 \<le> steps"
  have "map (sim_spot m dt z) [0..<Suc (nat steps)] =
        sim_spot m dt z 0 # map (\<lambda>k. sim_spot m dt z (Suc k)) [0..<nat steps]"
    by (simp only: upt_conv_Cons [of 0 "Suc (nat steps)"] map_Suc_upt [symmetric]) 
       (simp add: comp_def)
  with \<open>0 \<le> steps\<close> show ?thesis
    by (simp add: LookbackOption_path_def reserve_def path_loop_snd)
qed

subsection \<open>The pricers return\<close>

declare AsianOption_price_loop.simps [simp del]
declare BarrierOption_price_loop.simps [simp del]
declare LookbackOption_price_loop.simps [simp del]

lemma AsianOption_price_loop_total:
  "0 \<le> steps \<Longrightarrow> \<exists>v. AsianOption_price_loop opt m numPaths steps dt z i acc = Inr v"
proof (induction opt m numPaths steps dt z i acc rule: AsianOption_price_loop.induct)
  case (1 opt m numPaths steps dt z i acc)
  show ?case
  proof (cases "i < numPaths")
    case True
    with "1.IH" [OF True AsianOption_path_eq [OF "1.prems"]] "1.prems" show ?thesis
      by (subst AsianOption_price_loop.simps) (simp add: AsianOption_path_eq)
  next
    case False
    then show ?thesis
      by (subst AsianOption_price_loop.simps) simp
  qed
qed

lemma AsianOption_price_adjusted_total:
  "0 \<le> steps \<Longrightarrow> \<exists>v. AsianOption_price_adjusted opt m numPaths steps T z = Inr v"
proof -
  assume "0 \<le> steps"
  from AsianOption_price_loop_total [OF this]
  obtain v where "AsianOption_price_loop opt m numPaths steps (T / of_int_d steps) z 0 (Num 0) = Inr v"
    by blast
  then show ?thesis
    by (simp add: AsianOption_price_adjusted_def Let_def del: of_int_d_Num)
qed

lemma AsianOption_price_traced_total:
  "0 \<le> steps \<Longrightarrow>
   \<exists>v. AsianOption_price_traced opt m numPaths steps z =
     (Inr v, \<lparr>pc_model = m, pc_numPaths = numPaths, pc_steps = steps,
              pc_adjustedMaturity = maturity opt\<rparr>)"
  using AsianOption_price_adjusted_total [of steps opt m numPaths "maturity opt" z]
  by (auto simp: AsianOption_price_traced_def AsianOption_price_adjusted_traced_def)

lemma LookbackOption_payoff_nonempty:
  "path \<noteq> [] \<Longrightarrow> \<exists>v. LookbackOption_payoff opt path = Inr v"
  by (cases path) (simp_all add: LookbackOption_payoff_def max_element_def min_element_def)

lemma LookbackOption_price_loop_total:
  "0 \<le> steps \<Longrightarrow> \<exists>v. LookbackOption_price_loop opt m numPaths steps dt z i acc = Inr v"
proof (induction opt m numPaths steps dt z i acc rule: LookbackOption_price_loop.induct)
  case (1 opt m numPaths steps dt z i acc)
  show ?case
  proof (cases "i < numPaths")
    case True
    define path where "path = map (sim_spot m dt (z (nat i))) [0..<Suc (nat steps)]"
    have P: "LookbackOption_path m dt (z (nat i)) steps = Inr path"
      using "1.prems" by (simp only: path_def LookbackOption_path_eq)
    have "path \<noteq> []"
      by (simp add: path_def)
    from LookbackOption_payoff_nonempty [OF this]
    obtain p where p: "LookbackOption_payoff opt path = Inr p"
      by blast
    from "1.IH" [OF True P p "1.prems"] True P p show ?thesis
      by (subst LookbackOption_price_loop.simps) simp
  next
    case False
    then show ?thesis
      by (subst LookbackOption_price_loop.simps) simp
  qed
qed

lemma LookbackOption_price_adjusted_total:
  "0 \<le> steps \<Longrightarrow> \<exists>v. LookbackOption_price_adjusted opt m numPaths steps T z = Inr v"
proof -
  assume "0 \<le> steps"
  from LookbackOption_price_loop_total [OF this]
  obtain v where "LookbackOption_price_loop opt m numPaths steps (T / of_int_d steps) z 0 (Num 0) = Inr v"
    by blast
  then show ?thesis
    by (simp add: LookbackOption_price_adjusted_def Let_def del: of_int_d_Num)
qed

lemma LookbackOption_price_traced_total:
  "0 \<le> steps \<Longrightarrow>
   \<exists>v. LookbackOption_price_traced opt m numPaths steps z =
     (Inr v, \<lparr>pc_model = m, pc_numPaths = numPaths, pc_steps = steps,
              pc_adjustedMaturity = maturity opt\<rparr>)"
  using LookbackOption_price_adjusted_total [of steps opt m numPaths "maturity opt" z]
  by (auto simp: LookbackOption_price_traced_def LookbackOption_price_adjusted_traced_def)

lemma BarrierOption_path_payoff_nonempty:
  "path \<noteq> [] \<Longrightarrow> \<exists>v. BarrierOption_path_payoff opt path = Inr v"
  by (cases path) (simp_all add: BarrierOption_path_payoff_def vector_back_def Let_def)

lemma BarrierOption_price_loop_total:
  "1 \<le> steps \<Longrightarrow> \<exists>v. BarrierOption_price_loop opt m numPaths steps dt z i acc = Inr v"
proof (induction opt m numPaths steps dt z i acc rule: BarrierOption_price_loop.induct)
  case (1 opt m numPaths steps dt z i acc)
  show ?case
  proof (cases "i < numPaths")
    case True
    define path where "path = map (\<lambda>k. sim_spot m dt (z (nat i)) (Suc k)) [0..<nat steps]"
    have P: "BarrierOption_path m dt (z (nat i)) steps = Inr path"
      using "1.prems" by (simp only: path_def BarrierOption_path_eq)
    have "path \<noteq> []"
      using "1.prems" by (simp add: path_def)
    from BarrierOption_path_payoff_nonempty [OF this]
    obtain p where p: "BarrierOption_path_payoff opt path = Inr p"
      by blast
    from "1.IH" [OF True P p "1.prems"] True P p show ?thesis
      by (subst BarrierOption_price_loop.simps) simp
  next
    case False
    then show ?thesis
      by (subst BarrierOption_price_loop.simps) simp
  qed
qed

lemma BarrierOption_price_adjusted_total:
  "1 \<le> steps \<Longrightarrow> \<exists>v. BarrierOption_price_adjusted opt m numPaths steps T z = Inr v"
proof -
  assume "1 \<le> steps"
  from BarrierOption_price_loop_total [OF this]
  obtain v where "BarrierOption_price_loop opt m numPaths steps (T / of_int_d steps) z 0 (Num 0) = Inr v"
    by blast
  then show ?thesis
    by (simp add: BarrierOption_price_adjusted_def Let_def del: of_int_d_Num)
qed

lemma BarrierOption_price_adjusted_traced_total:
  "1 \<le> steps \<Longrightarrow>
   \<exists>v. BarrierOption_price_adjusted_traced opt m numPaths steps T z =
     (Inr v, \<lparr>pc_model = m, pc_numPaths = numPaths, pc_steps = steps,
              pc_adjustedMaturity = T\<rparr>)"
  using BarrierOption_price_adjusted_total [of steps opt m numPaths T z]
  by (auto simp: BarrierOption_price_adjusted_traced_def)

lemma BarrierOption_price_traced_total:
  "1 \<le> steps \<Longrightarrow>
   \<exists>v. BarrierOption_price_traced opt m numPaths steps z =
     (Inr v, \<lparr>pc_model = m, pc_numPaths = numPaths, pc_steps = steps,
              pc_adjustedMaturity = maturity opt\<rparr>)"
  using BarrierOption_price_adjusted_traced_total [of steps opt m numPaths "maturity opt" z]
  by (simp add: BarrierOption_price_traced_def)

subsection \<open>The hedging loop of \<open>AsianOption\<close>\<close>

declare AsianOption_hedge_loop.simps [simp del]

lemma AsianOption_hedge_init_inv:
  assumes "0 \<le> steps"
  shows "\<exists>st. AsianOption_hedge_init opt m steps zs = Inr st \<and>
           hedge_inv m steps (hedge_epsilon m) (\<lambda>k. maturity opt)
             (hedge_spot m (maturity opt / of_int_d steps) u) 1 st"
proof -
  obtain vu where U: "AsianOption_price_traced opt (m\<lparr>spot := spot m + hedge_epsilon m\<rparr>)
      10000 steps (zs 0 True) =
     (Inr vu, \<lparr>pc_model = m\<lparr>spot := spot m + hedge_epsilon m\<rparr>, pc_numPaths = 10000,
               pc_steps = steps, pc_adjustedMaturity = maturity opt\<rparr>)"
    using AsianOption_price_traced_total [OF assms] by blast
  obtain vd where D: "AsianOption_price_traced opt (m\<lparr>spot := spot m - hedge_epsilon m\<rparr>)
      10000 steps (zs 0 False) =
     (Inr vd, \<lparr>pc_model = m\<lparr>spot := spot m - hedge_epsilon m\<rparr>, pc_numPaths = 10000,
               pc_steps = steps, pc_adjustedMaturity = maturity opt\<rparr>)"
    using AsianOption_price_traced_total [OF assms] by blast
  show ?thesis
    by (simp add: AsianOption_hedge_init_def Let_def U D hedge_inv_def hedge_calls_def
        del: of_int_d_Num)
qed

lemma AsianOption_hedge_step_inv:
  assumes "int (Suc k) < steps"
    and inv: "hedge_inv m steps (hedge_epsilon m) (\<lambda>k. maturity opt)
           (hedge_spot m (maturity opt / of_int_d steps) u) (Suc k) st"
  shows "\<exists>st'. AsianOption_hedge_step opt m steps u zs (int (Suc k)) st = Inr st' \<and>
           hedge_inv m steps (hedge_epsilon m) (\<lambda>k. maturity opt)
             (hedge_spot m (maturity opt / of_int_d steps) u) (Suc (Suc k)) st'"
proof -
  define dt where "dt = maturity opt / of_int_d steps"
  define eps where "eps = hedge_epsilon m"
  define i where "i = int (Suc k)"
  have st: "hs_spot st = hedge_spot m dt u k"
    "hs_path st = map (hedge_spot m dt u) [0..<Suc k]"
    "hs_modelUp st = m\<lparr>spot := hedge_spot m dt u k + eps\<rparr>"
    "hs_modelDown st = m\<lparr>spot := hedge_spot m dt u k - eps\<rparr>"
    "hs_calls st = concat (map (hedge_calls m steps eps (\<lambda>k. maturity opt) (hedge_spot m dt u)) [0..<Suc k])"
    using inv unfolding hedge_inv_def dt_def [symmetric] eps_def [symmetric] by simp_all
  define S1 where "S1 = hedge_spot m dt u (Suc k)"
  have S1: "simulate_step m dt (Num (u (nat (i - 1))) - Num 0.5) (hs_spot st) = S1"
    by (simp add: S1_def st i_def)
  have ge: "0 \<le> steps - i" using assms(1) by (simp add: i_def)
  obtain vu where U: "AsianOption_price_traced opt (m\<lparr>spot := S1 + eps\<rparr>)
      10000 (steps - i) (zs i True) =
     (Inr vu, \<lparr>pc_model = m\<lparr>spot := S1 + eps\<rparr>, pc_numPaths = 10000,
               pc_steps = steps - i, pc_adjustedMaturity = maturity opt\<rparr>)"
    using AsianOption_price_traced_total [OF ge] by blast
  obtain vd where D: "AsianOption_price_traced opt (m\<lparr>spot := S1 - eps\<rparr>)
      10000 (steps - i) (zs i False) =
     (Inr vd, \<lparr>pc_model = m\<lparr>spot := S1 - eps\<rparr>, pc_numPaths = 10000,
               pc_steps = steps - i, pc_adjustedMaturity = maturity opt\<rparr>)"
    using AsianOption_price_traced_total [OF ge] by blast
  have up: "(hs_modelUp st)\<lparr>spot := S1 + eps\<rparr> = m\<lparr>spot := S1 + eps\<rparr>"
    and down: "(hs_modelDown st)\<lparr>spot := S1 - eps\<rparr> = m\<lparr>spot := S1 - eps\<rparr>"
    by (simp_all add: st)
  obtain d c where R: "AsianOption_hedge_step opt m steps u zs i st =
      Inr (st\<lparr>hs_spot := S1, hs_path := hs_path st @ [S1],
               hs_modelUp := m\<lparr>spot := S1 + eps\<rparr>,
               hs_modelDown := m\<lparr>spot := S1 - eps\<rparr>, hs_delta := d, hs_cash := c,
               hs_calls := hs_calls st @
                 [(i, \<lparr>pc_model = m\<lparr>spot := S1 + eps\<rparr>, pc_numPaths = 10000,
                       pc_steps = steps - i, pc_adjustedMaturity = maturity opt\<rparr>),
                  (i, \<lparr>pc_model = m\<lparr>spot := S1 - eps\<rparr>, pc_numPaths = 10000,
                       pc_steps = steps - i, pc_adjustedMaturity = maturity opt\<rparr>)]\<rparr>)"
    unfolding AsianOption_hedge_step_def Let_def dt_def [symmetric] eps_def [symmetric] S1 up down U D
    by simp
  have "hedge_inv m steps eps (\<lambda>k. maturity opt) (hedge_spot m dt u) (Suc (Suc k))
          (st\<lparr>hs_spot := S1, hs_path := hs_path st @ [S1],
               hs_modelUp := m\<lparr>spot := S1 + eps\<rparr>,
               hs_modelDown := m\<lparr>spot := S1 - eps\<rparr>, hs_delta := d, hs_cash := c,
               hs_calls := hs_calls st @
                 [(i, \<lparr>pc_model = m\<lparr>spot := S1 + eps\<rparr>, pc_numPaths = 10000,
                       pc_steps = steps - i, pc_adjustedMaturity = maturity opt\<rparr>),
                  (i, \<lparr>pc_model = m\<lparr>spot := S1 - eps\<rparr>, pc_numPaths = 10000,
                       pc_steps = steps - i, pc_adjustedMaturity = maturity opt\<rparr>)]\<rparr>)"
    unfolding hedge_inv_def
    by (simp add: st S1_def hedge_calls_def i_def)
  with R show ?thesis
    unfolding dt_def eps_def i_def by blast
qed

lemma AsianOption_hedge_loop_inv:
  assumes "1 \<le> i" "i \<le> steps"
    and "hedge_inv m steps (hedge_epsilon m) (\<lambda>k. maturity opt)
           (hedge_spot m (maturity opt / of_int_d steps) u) (nat i) st"
  shows "\<exists>st'. AsianOption_hedge_loop opt m steps u zs i st = Inr st' \<and>
           hedge_inv m steps (hedge_epsilon m) (\<lambda>k. maturity opt)
             (hedge_spot m (maturity opt / of_int_d steps) u) (nat steps) st'"
  using assms
proof (induction opt m steps u zs i st rule: AsianOption_hedge_loop.induct)
  case (1 opt m steps u zs i st)
  show ?case
  proof (cases "i < steps")
    case True
    define k where "k = nat (i - 1)"
    have i: "i = int (Suc k)" "nat i = Suc k" "nat (i + 1) = Suc (Suc k)"
      using "1.prems"(1) by (simp_all add: k_def)
    from AsianOption_hedge_step_inv [of k steps m opt u st zs] True "1.prems"(3)
    obtain st1 where st1: "AsianOption_hedge_step opt m steps u zs i st = Inr st1"
      "hedge_inv m steps (hedge_epsilon m) (\<lambda>k. maturity opt)
         (hedge_spot m (maturity opt / of_int_d steps) u) (nat (i + 1)) st1"
      unfolding i(2,3) unfolding i(1) by blast
    have "1 \<le> i + 1" "i + 1 \<le> steps"
      using "1.prems"(1) True by simp_all
    from "1.IH" [OF True st1(1) this st1(2)]
    obtain st' where "AsianOption_hedge_loop opt m steps u zs (i + 1) st1 = Inr st'"
      "hedge_inv m steps (hedge_epsilon m) (\<lambda>k. maturity opt)
         (hedge_spot m (maturity opt / of_int_d steps) u) (nat steps) st'"
      by blast
    with True st1(1) show ?thesis
      by (subst AsianOption_hedge_loop.simps) simp
  next
    case False
    with "1.prems" have "i = steps" by simp
    with "1.prems"(3) show ?thesis
      by (subst AsianOption_hedge_loop.simps) simp
  qed
qed

lemma AsianOption_hedge_run_inv:
  assumes "1 \<le> steps"
  shows "\<exists>st. AsianOption_hedge_run opt m steps u zs = Inr st \<and>
           hedge_inv m steps (hedge_epsilon m) (\<lambda>k. maturity opt)
             (hedge_spot m (maturity opt / of_int_d steps) u) (nat steps) st"
proof -
  from assms have "0 \<le> steps" by simp
  from AsianOption_hedge_init_inv [OF this, of opt m zs u]
  obtain st0 where st0: "AsianOption_hedge_init opt m steps zs = Inr st0"
    "hedge_inv m steps (hedge_epsilon m) (\<lambda>k. maturity opt)
       (hedge_spot m (maturity opt / of_int_d steps) u) (nat 1) st0"
    by auto
  from AsianOption_hedge_loop_inv [OF _ assms st0(2), of zs] st0(1)
  show ?thesis
    by (simp add: AsianOption_hedge_run_def)
qed

subsection \<open>The hedging loop of \<open>LookbackOption\<close>\<close>

declare LookbackOption_hedge_loop.simps [simp del]

lemma LookbackOption_hedge_init_inv:
  assumes "0 \<le> steps"
  shows "\<exists>st. LookbackOption_hedge_init opt m steps zs = Inr st \<and>
           hedge_inv m steps (hedge_epsilon m) (\<lambda>k. maturity opt)
             (hedge_spot m (maturity opt / of_int_d steps) u) 1 st"
proof -
  obtain vu where U: "LookbackOption_price_traced opt (m\<lparr>spot := spot m + hedge_epsilon m\<rparr>)
      10000 steps (zs 0 True) =
     (Inr vu, \<lparr>pc_model = m\<lparr>spot := spot m + hedge_epsilon m\<rparr>, pc_numPaths = 10000,
               pc_steps = steps, pc_adjustedMaturity = maturity opt\<rparr>)"
    using LookbackOption_price_traced_total [OF assms] by blast
  obtain vd where D: "LookbackOption_price_traced opt (m\<lparr>spot := spot m - hedge_epsilon m\<rparr>)
      10000 steps (zs 0 False) =
     (Inr vd, \<lparr>pc_model = m\<lparr>spot := spot m - hedge_epsilon m\<rparr>, pc_numPaths = 10000,
               pc_steps = steps, pc_adjustedMaturity = maturity opt\<rparr>)"
    using LookbackOption_price_traced_total [OF assms] by blast
  show ?thesis
    by (simp add: LookbackOption_hedge_init_def Let_def U D hedge_inv_def hedge_calls_def
        del: of_int_d_Num)
qed

lemma LookbackOption_hedge_step_inv:
  assumes "int (Suc k) < steps"
    and inv: "hedge_inv m steps (hedge_epsilon m) (\<lambda>k. maturity opt)
           (hedge_spot m (maturity opt / of_int_d steps) u) (Suc k) st"
  shows "\<exists>st'. LookbackOption_hedge_step opt m steps u zs (int (Suc k)) st = Inr st' \<and>
           hedge_inv m steps (hedge_epsilon m) (\<lambda>k. maturity opt)
             (hedge_spot m (maturity opt / of_int_d steps) u) (Suc (Suc k)) st'"
proof -
  define dt where "dt = maturity opt / of_int_d steps"
  define eps where "eps = hedge_epsilon m"
  define i where "i = int (Suc k)"
  have st: "hs_spot st = hedge_spot m dt u k"
    "hs_path st = map (hedge_spot m dt u) [0..<Suc k]"
    "hs_modelUp st = m\<lparr>spot := hedge_spot m dt u k + eps\<rparr>"
    "hs_modelDown st = m\<lparr>spot := hedge_spot m dt u k - eps\<rparr>"
    "hs_calls st = concat (map (hedge_calls m steps eps (\<lambda>k. maturity opt) (hedge_spot m dt u)) [0..<Suc k])"
    using inv unfolding hedge_inv_def dt_def [symmetric] eps_def [symmetric] by simp_all
  define S1 where "S1 = hedge_spot m dt u (Suc k)"
  have S1: "simulate_step m dt (Num (u (nat (i - 1))) - Num 0.5) (hs_spot st) = S1"
    by (simp add: S1_def st i_def)
  have ge: "0 \<le> steps - i" using assms(1) by (simp add: i_def)
  obtain vu where U: "LookbackOption_price_traced opt (m\<lparr>spot := S1 + eps\<rparr>)
      10000 (steps - i) (zs i True) =
     (Inr vu, \<lparr>pc_model = m\<lparr>spot := S1 + eps\<rparr>, pc_numPaths = 10000,
               pc_steps = steps - i, pc_adjustedMaturity = maturity opt\<rparr>)"
    using LookbackOption_price_traced_total [OF ge] by blast
  obtain vd where D: "LookbackOption_price_traced opt (m\<lparr>spot := S1 - eps\<rparr>)
      10000 (steps - i) (zs i False) =
     (Inr vd, \<lparr>pc_model = m\<lparr>spot := S1 - eps\<rparr>, pc_numPaths = 10000,
               pc_steps = steps - i, pc_adjustedMaturity = maturity opt\<rparr>)"
    using LookbackOption_price_traced_total [OF ge] by blast
  have up: "(hs_modelUp st)\<lparr>spot := S1 + eps\<rparr> = m\<lparr>spot := S1 + eps\<rparr>"
    and down: "(hs_modelDown st)\<lparr>spot := S1 - eps\<rparr> = m\<lparr>spot := S1 - eps\<rparr>"
    by (simp_all add: st)
  obtain d c where R: "LookbackOption_hedge_step opt m steps u zs i st =
      Inr (st\<lparr>hs_spot := S1, hs_path := hs_path st @ [S1],
               hs_modelUp := m\<lparr>spot := S1 + eps\<rparr>,
               hs_modelDown := m\<lparr>spot := S1 - eps\<rparr>, hs_delta := d, hs_cash := c,
               hs_calls := hs_calls st @
                 [(i, \<lparr>pc_model = m\<lparr>spot := S1 + eps\<rparr>, pc_numPaths = 10000,
                       pc_steps = steps - i, pc_adjustedMaturity = maturity opt\<rparr>),
                  (i, \<lparr>pc_model = m\<lparr>spot := S1 - eps\<rparr>, pc_numPaths = 10000,
                       pc_steps = steps - i, pc_adjustedMaturity = maturity opt\<rparr>)]\<rparr>)"
    unfolding LookbackOption_hedge_step_def Let_def dt_def [symmetric] eps_def [symmetric] S1 up down U D
    by simp
  have "hedge_inv m steps eps (\<lambda>k. maturity opt) (hedge_spot m dt u) (Suc (Suc k))
          (st\<lparr>hs_spot := S1, hs_path := hs_path st @ [S1],
               hs_modelUp := m\<lparr>spot := S1 + eps\<rparr>,
               hs_modelDown := m\<lparr>spot := S1 - eps\<rparr>, hs_delta := d, hs_cash := c,
               hs_calls := hs_calls st @
                 [(i, \<lparr>pc_model = m\<lparr>spot := S1 + eps\<rparr>, pc_numPaths = 10000,
                       pc_steps = steps - i, pc_adjustedMaturity = maturity opt\<rparr>),
                  (i, \<lparr>pc_model = m\<lparr>spot := S1 - eps\<rparr>, pc_numPaths = 10000,
                       pc_steps = steps - i, pc_adjustedMaturity = maturity opt\<rparr>)]\<rparr>)"
    unfolding hedge_inv_def
    by (simp add: st S1_def hedge_calls_def i_def)
  with R show ?thesis
    unfolding dt_def eps_def i_def by blast
qed

lemma LookbackOption_hedge_loop_inv:
  assumes "1 \<le> i" "i \<le> steps"
    and "hedge_inv m steps (hedge_epsilon m) (\<lambda>k. maturity opt)
           (hedge_spot m (maturity opt / of_int_d steps) u) (nat i) st"
  shows "\<exists>st'. LookbackOption_hedge_loop opt m steps u zs i st = Inr st' \<and>
           hedge_inv m steps (hedge_epsilon m) (\<lambda>k. maturity opt)
             (hedge_spot m (maturity opt / of_int_d steps) u) (nat steps) st'"
  using assms
proof (induction opt m steps u zs i st rule: LookbackOption_hedge_loop.induct)
  case (1 opt m steps u zs i st)
  show ?case
  proof (cases "i < steps")
    case True
    define k where "k = nat (i - 1)"
    have i: "i = int (Suc k)" "nat i = Suc k" "nat (i + 1) = Suc (Suc k)"
      using "1.prems"(1) by (simp_all add: k_def)
    from LookbackOption_hedge_step_inv [of k steps m opt u st zs] True "1.prems"(3)
    obtain st1 where st1: "LookbackOption_hedge_step opt m steps u zs i st = Inr st1"
      "hedge_inv m steps (hedge_epsilon m) (\<lambda>k. maturity opt)
         (hedge_spot m (maturity opt / of_int_d steps) u) (nat (i + 1)) st1"
      unfolding i(2,3) unfolding i(1) by blast
    have "1 \<le> i + 1" "i + 1 \<le> steps"
      using "1.prems"(1) True by simp_all
    from "1.IH" [OF True st1(1) this st1(2)]
    obtain st' where "LookbackOption_hedge_loop opt m steps u zs (i + 1) st1 = Inr st'"
      "hedge_inv m steps (hedge_epsilon m) (\<lambda>k. maturity opt)
         (hedge_spot m (maturity opt / of_int_d steps) u) (nat steps) st'"
      by blast
    with True st1(1) show ?thesis
      by (subst LookbackOption_hedge_loop.simps) simp
  next
    case False
    with "1.prems" have "i = steps" by simp
    with "1.prems"(3) show ?thesis
      by (subst LookbackOption_hedge_loop.simps) simp
  qed
qed

lemma LookbackOption_hedge_run_inv:
  assumes "1 \<le> steps"
  shows "\<exists>st. LookbackOption_hedge_run opt m steps u zs = Inr st \<and>
           hedge_inv m steps (hedge_epsilon m) (\<lambda>k. maturity opt)
             (hedge_spot m (maturity opt / of_int_d steps) u) (nat steps) st"
proof -
  from assms have "0 \<le> steps" by simp
  from LookbackOption_hedge_init_inv [OF this, of opt m zs u]
  obtain st0 where st0: "LookbackOption_hedge_init opt m steps zs = Inr st0"
    "hedge_inv m steps (hedge_epsilon m) (\<lambda>k. maturity opt)
       (hedge_spot m (maturity opt / of_int_d steps) u) (nat 1) st0"
    by auto
  from LookbackOption_hedge_loop_inv [OF _ assms st0(2), of zs] st0(1)
  show ?thesis
    by (simp add: LookbackOption_hedge_run_def)
qed

subsection \<open>\<open>isBarrierTouched\<close>\<close>

declare crossed_up.simps [simp del]
declare crossed_down.simps [simp del]

lemma crossed_up_iff:
  "crossed_up b path i = (\<exists>k. i \<le> k \<and> k < length path \<and> path ! (k - 1) < b \<and> path ! k \<ge> b)"
proof (induction b path i rule: crossed_up.induct)
  case (1 b path i)
  show ?case
  proof (cases "i < length path")
    case inside: True
    show ?thesis
    proof (cases "path ! (i - 1) < b \<and> path ! i \<ge> b")
      case True
      with inside have "crossed_up b path i"
        by (subst crossed_up.simps) simp
      moreover from True inside
      have "\<exists>k. i \<le> k \<and> k < length path \<and> path ! (k - 1) < b \<and> path ! k \<ge> b"
        by blast
      ultimately show ?thesis by simp
    next
      case False
      with inside have "crossed_up b path i = crossed_up b path (i + 1)"
        by (subst crossed_up.simps) auto
      also have "\<dots> = (\<exists>k. i + 1 \<le> k \<and> k < length path \<and> path ! (k - 1) < b \<and> path ! k \<ge> b)"
        using "1.IH" [OF inside False] .
      also have "\<dots> = (\<exists>k. i \<le> k \<and> k < length path \<and> path ! (k - 1) < b \<and> path ! k \<ge> b)"
      proof
        assume "\<exists>k. i + 1 \<le> k \<and> k < length path \<and> path ! (k - 1) < b \<and> path ! k \<ge> b"
        then obtain k where "i + 1 \<le> k" "k < length path" "path ! (k - 1) < b" "path ! k \<ge> b"
          by blast
        then have "i \<le> k \<and> k < length path \<and> path ! (k - 1) < b \<and> path ! k \<ge> b"
          by simp
        then show "\<exists>k. i \<le> k \<and> k < length path \<and> path ! (k - 1) < b \<and> path ! k \<ge> b" ..
      next
        assume "\<exists>k. i \<le> k \<and> k < length path \<and> path ! (k - 1) < b \<and> path ! k \<ge> b"
        then obtain k where k: "i \<le> k" "k < length path" "path ! (k - 1) < b" "path ! k \<ge> b"
          by blast
        with False have "k \<noteq> i" by blast
        with k have "i + 1 \<le> k \<and> k < length path \<and> path ! (k - 1) < b \<and> path ! k \<ge> b"
          by simp
        then show "\<exists>k. i + 1 \<le> k \<and> k < length path \<and> path ! (k - 1) < b \<and> path ! k \<ge> b" ..
      qed
      finally show ?thesis .
    qed
  next
    case False
    then have "\<not> crossed_up b path i"
      by (subst crossed_up.simps) simp
    with False show ?thesis by auto
  qed
qed

lemma crossed_down_iff:
  "crossed_down b path i = (\<exists>k. i \<le> k \<and> k < length path \<and> path ! (k - 1) > b \<and> path ! k \<le> b)"
proof (induction b path i rule: crossed_down.induct)
  case (1 b path i)
  show ?case
  proof (cases "i < length path")
    case inside: True
    show ?thesis
    proof (cases "path ! (i - 1) > b \<and> path ! i \<le> b")
      case True
      with inside have "crossed_down b path i"
        by (subst crossed_down.simps) simp
      moreover from True inside
      have "\<exists>k. i \<le> k \<and> k < length path \<and> path ! (k - 1) > b \<and> path ! k \<le> b"
        by blast
      ultimately show ?thesis by simp
    next
      case False
      with inside have "crossed_down b path i = crossed_down b path (i + 1)"
        by (subst crossed_down.simps) auto
      also have "\<dots> = (\<exists>k. i + 1 \<le> k \<and> k < length path \<and> path ! (k - 1) > b \<and> path ! k \<le> b)"
        using "1.IH" [OF inside False] .
      also have "\<dots> = (\<exists>k. i \<le> k \<and> k < length path \<and> path ! (k - 1) > b \<and> path ! k \<le> b)"
      proof
        assume "\<exists>k. i + 1 \<le> k \<and> k < length path \<and> path ! (k - 1) > b \<and> path ! k \<le> b"
        then obtain k where "i + 1 \<le> k" "k < length path" "path ! (k - 1) > b" "path ! k \<le> b"
          by blast
        then have "i \<le> k \<and> k < length path \<and> path ! (k - 1) > b \<and> path ! k \<le> b"
          by simp
        then show "\<exists>k. i \<le> k \<and> k < length path \<and> path ! (k - 1) > b \<and> path ! k \<le> b" ..
      next
        assume "\<exists>k. i \<le> k \<and> k < length path \<and> path ! (k - 1) > b \<and> path ! k \<le> b"
        then obtain k where k: "i \<le> k" "k < length path" "path ! (k - 1) > b" "path ! k \<le> b"
          by blast
        with False have "k \<noteq> i" by blast
        with k have "i + 1 \<le> k \<and> k < length path \<and> path ! (k - 1) > b \<and> path ! k \<le> b"
          by simp
        then show "\<exists>k. i + 1 \<le> k \<and> k < length path \<and> path ! (k - 1) > b \<and> path ! k \<le> b" ..
      qed
      finally show ?thesis .
    qed
  next
    case False
    then have "\<not> crossed_down b path i"
      by (subst crossed_down.simps) simp
    with False show ?thesis by auto
  qed
qed

lemma isBarrierTouched_short:
  "length path \<le> 1 \<Longrightarrow> \<not> BarrierOption_isBarrierTouched opt path"
  by (cases "barrierType opt")
     (simp_all add: BarrierOption_isBarrierTouched_def crossed_up_iff crossed_down_iff)

subsection \<open>The hedging loop of \<open>BarrierOption\<close>\<close>

declare BarrierOption_hedge_loop.simps [simp del]

lemma BarrierOption_hedge_init_inv:
  assumes "1 \<le> steps"
  shows "\<exists>st. BarrierOption_hedge_init opt m steps zs = Inr st \<and>
           barrier_hedge_inv opt m steps (hedge_epsilon m) (barrier_horizon opt steps)
             (hedge_spot m (maturity opt / of_int_d steps) u) 1 st"
proof -
  define eps where "eps = hedge_epsilon m"
  obtain vu where U: "BarrierOption_price_traced opt (m\<lparr>spot := spot m + eps\<rparr>)
      10000 steps (zs 0 True) =
     (Inr vu, \<lparr>pc_model = m\<lparr>spot := spot m + eps\<rparr>, pc_numPaths = 10000,
               pc_steps = steps, pc_adjustedMaturity = maturity opt\<rparr>)"
    using BarrierOption_price_traced_total [OF assms] by blast
  obtain vd where D: "BarrierOption_price_traced opt (m\<lparr>spot := spot m - eps\<rparr>)
      10000 steps (zs 0 False) =
     (Inr vd, \<lparr>pc_model = m\<lparr>spot := spot m - eps\<rparr>, pc_numPaths = 10000,
               pc_steps = steps, pc_adjustedMaturity = maturity opt\<rparr>)"
    using BarrierOption_price_traced_total [OF assms] by blast
  have T: "\<not> BarrierOption_isBarrierTouched opt [spot m]"
    by (rule isBarrierTouched_short) simp
  have "\<exists>st. BarrierOption_hedge_init opt m steps zs = Inr st \<and>
           barrier_hedge_inv opt m steps eps (barrier_horizon opt steps)
             (hedge_spot m (maturity opt / of_int_d steps) u) 1 st"
    unfolding BarrierOption_hedge_init_def Let_def eps_def [symmetric] U D
    using T
    by (simp add: barrier_hedge_inv_def barrier_hedge_calls_def hedge_calls_def
        barrier_horizon_def del: of_int_d_Num) blast
  then show ?thesis
    by (simp only: eps_def)
qed




subsection \<open>The pricers on finite inputs\<close>

















subsection \<open>What a hedging run passes to the pricer\<close>




subsection \<open>The horizon of the nested pricer calls\<close>

text \<open>
  Claim C1 says that at every rebalancing step \<open>i\<close> of a Monte Carlo \<open>hedgeCost\<close> both
  bumped calls reach the pricer with the horizon \<open>maturity - i * dt\<close> and \<open>steps - i\<close> steps.
  For an Asian and a lookback call of strike 100 and maturity 1, hedged in 2 steps on the
  model (100, 0.05, 0.2, 0), the two calls of step 1 reach the pricer with 1 step and the
  horizon 1, the full maturity, where the claim asks for 0.5: the loop computes
  \<open>adjustedMaturity\<close> and calls the three-argument \<open>price\<close>, which passes the option's
  maturity.
\<close>

theorem asian_lookback_hedge_horizon:
  "call_args (AsianOption_hedge_run
      \<lparr>strike = Num 100, maturity = Num 1, AsianOption.optionType = Call\<rparr>
      \<lparr>spot = Num 100, rate = Num 0.05, volatility = Num 0.2, dividend = Num 0\<rparr> 2 u zs) =
     Inr [(0, 2, Num 1), (0, 2, Num 1), (1, 1, Num 1), (1, 1, Num 1)] \<and>
   call_args (LookbackOption_hedge_run
      \<lparr>strike = Num 100, maturity = Num 1, LookbackOption.optionType = Call\<rparr>
      \<lparr>spot = Num 100, rate = Num 0.05, volatility = Num 0.2, dividend = Num 0\<rparr> 2 u zs) =
     Inr [(0, 2, Num 1), (0, 2, Num 1), (1, 1, Num 1), (1, 1, Num 1)] \<and>
   Num 1 - of_int_d 1 * (Num 1 / of_int_d 2) = Num 0.5"
proof -
  have two: "[0..<2] = [0, Suc 0]"
    by (simp add: upt_rec)
  from AsianOption_hedge_run_inv [of 2
      "\<lparr>strike = Num 100, maturity = Num 1, AsianOption.optionType = Call\<rparr>"
      "\<lparr>spot = Num 100, rate = Num 0.05, volatility = Num 0.2, dividend = Num 0\<rparr>" u zs]
  have A: "call_args (AsianOption_hedge_run
      \<lparr>strike = Num 100, maturity = Num 1, AsianOption.optionType = Call\<rparr>
      \<lparr>spot = Num 100, rate = Num 0.05, volatility = Num 0.2, dividend = Num 0\<rparr> 2 u zs) =
     Inr [(0, 2, Num 1), (0, 2, Num 1), (1, 1, Num 1), (1, 1, Num 1)]"
    by (auto simp: hedge_inv_def call_args_def hedge_calls_def two)
  from LookbackOption_hedge_run_inv [of 2
      "\<lparr>strike = Num 100, maturity = Num 1, LookbackOption.optionType = Call\<rparr>"
      "\<lparr>spot = Num 100, rate = Num 0.05, volatility = Num 0.2, dividend = Num 0\<rparr>" u zs]
  have L: "call_args (LookbackOption_hedge_run
      \<lparr>strike = Num 100, maturity = Num 1, LookbackOption.optionType = Call\<rparr>
      \<lparr>spot = Num 100, rate = Num 0.05, volatility = Num 0.2, dividend = Num 0\<rparr> 2 u zs) =
     Inr [(0, 2, Num 1), (0, 2, Num 1), (1, 1, Num 1), (1, 1, Num 1)]"
    by (auto simp: hedge_inv_def call_args_def hedge_calls_def two)
  have "Num 1 - of_int_d 1 * (Num 1 / of_int_d 2) = Num 0.5"
    by simp
  with A L show ?thesis
    by blast
qed

subsection \<open>Degenerate arguments of the pricers\<close>




subsection \<open>The last step of the vanilla hedge\<close>

text \<open>
  Claim C3 says that the vanilla \<open>hedgeCost\<close> guards the final rebalancing step, where the
  remaining maturity is zero, so that no NaN reaches the cash account. For a call and a
  put of strike 100 and maturity 1 on a model with spot 100, hedged in 1 step, the loop
  runs its iteration \<open>i = 1 = steps\<close> without simulating, computes \<open>d1\<close> as
  \<open>0 / (volatility * sqrt(0))\<close>, and returns NaN.
\<close>

theorem vanilla_hedgeCost_final_step:
  "CallOption_hedgeCost \<lparr>strike = Num 100, maturity = Num 1\<rparr>
     \<lparr>spot = Num 100, rate = Num 0.05, volatility = Num 0.2, dividend = Num 0\<rparr> 1 u = NaN \<and>
   PutOption_hedgeCost \<lparr>strike = Num 100, maturity = Num 1\<rparr>
     \<lparr>spot = Num 100, rate = Num 0.05, volatility = Num 0.2, dividend = Num 0\<rparr> 1 u = NaN \<and>
   vs_d1 (CallOption_hedge_step \<lparr>strike = Num 100, maturity = Num 1\<rparr>
     \<lparr>spot = Num 100, rate = Num 0.05, volatility = Num 0.2, dividend = Num 0\<rparr> 1 u 1
     (CallOption_hedge_init \<lparr>strike = Num 100, maturity = Num 1\<rparr>
       \<lparr>spot = Num 100, rate = Num 0.05, volatility = Num 0.2, dividend = Num 0\<rparr>)) =
     Num 0 / Num 0"
proof (intro conjI)
  show "CallOption_hedgeCost \<lparr>strike = Num 100, maturity = Num 1\<rparr>
     \<lparr>spot = Num 100, rate = Num 0.05, volatility = Num 0.2, dividend = Num 0\<rparr> 1 u = NaN"
    by (simp add: CallOption_hedgeCost_def CallOption_hedge_loop.simps CallOption_hedge_step_def
        CallOption_hedge_init_def Let_def inf_of_sign_def minus_double_def CallOption_payoff_def)
  show "PutOption_hedgeCost \<lparr>strike = Num 100, maturity = Num 1\<rparr>
     \<lparr>spot = Num 100, rate = Num 0.05, volatility = Num 0.2, dividend = Num 0\<rparr> 1 u = NaN"
    by (simp add: PutOption_hedgeCost_def PutOption_hedge_loop.simps PutOption_hedge_step_def
        PutOption_hedge_init_def Let_def inf_of_sign_def minus_double_def PutOption_payoff_def)
  show "vs_d1 (CallOption_hedge_step \<lparr>strike = Num 100, maturity = Num 1\<rparr>
     \<lparr>spot = Num 100, rate = Num 0.05, volatility = Num 0.2, dividend = Num 0\<rparr> 1 u 1
     (CallOption_hedge_init \<lparr>strike = Num 100, maturity = Num 1\<rparr>
       \<lparr>spot = Num 100, rate = Num 0.05, volatility = Num 0.2, dividend = Num 0\<rparr>)) =
     Num 0 / Num 0"
    by (simp add: CallOption_hedge_step_def CallOption_hedge_init_def Let_def inf_of_sign_def)
qed

subsection \<open>The terminal payoff of the path-only classes\<close>

text \<open>
  Claim C4. For AsianOption and LookbackOption, \<open>payoff(spot)\<close> with any spot raises
  \<open>std::logic_error\<close> and never returns a number.
\<close>

theorem payoff_spot_unsupported:
  "AsianOption_payoff_spot aopt x =
     Inl (logic_error ''payoff(double spot) is not applicable for AsianOption.'') \<and>
   LookbackOption_payoff_spot lopt x =
     Inl (logic_error ''payoff(double spot) is not applicable for LookbackOption.'') \<and>
   (\<forall>v. AsianOption_payoff_spot aopt x \<noteq> Inr v) \<and>
   (\<forall>v. LookbackOption_payoff_spot lopt x \<noteq> Inr v)"
  by (simp add: AsianOption_payoff_spot_def LookbackOption_payoff_spot_def)

subsection \<open>The Monte Carlo estimator\<close>



subsection \<open>The finite-difference bump\<close>




subsection \<open>Barrier crossings\<close>

text \<open>
  Claim C7. \<open>isBarrierTouched(path)\<close> is true exactly when some index \<open>i \<ge> 1\<close> of the path
  has \<open>path[i-1] < barrier\<close> and \<open>path[i] \<ge> barrier\<close> (up barriers), or \<open>path[i-1] > barrier\<close>
  and \<open>path[i] \<le> barrier\<close> (down barriers); on \<open>[90, 95, 100, 105, 110]\<close> with barrier 100
  and an up barrier it is true.
\<close>

theorem isBarrierTouched_iff_crossing:
  "BarrierOption_isBarrierTouched opt path =
     (if barrierType opt = UpAndOut \<or> barrierType opt = UpAndIn
      then (\<exists>i. 1 \<le> i \<and> i < length path \<and>
                 path ! (i - 1) < barrier opt \<and> path ! i \<ge> barrier opt)
      else (\<exists>i. 1 \<le> i \<and> i < length path \<and>
                 path ! (i - 1) > barrier opt \<and> path ! i \<le> barrier opt)) \<and>
   BarrierOption_isBarrierTouched
     \<lparr>strike = K, maturity = T, barrier = Num 100, barrierType = UpAndOut,
      BarrierOption.optionType = ty\<rparr>
     [Num 90, Num 95, Num 100, Num 105, Num 110] \<and>
   BarrierOption_isBarrierTouched
     \<lparr>strike = K, maturity = T, barrier = Num 100, barrierType = UpAndIn,
      BarrierOption.optionType = ty\<rparr>
     [Num 90, Num 95, Num 100, Num 105, Num 110]"
proof (intro conjI)
  show "BarrierOption_isBarrierTouched opt path =
     (if barrierType opt = UpAndOut \<or> barrierType opt = UpAndIn
      then (\<exists>i. 1 \<le> i \<and> i < length path \<and>
                 path ! (i - 1) < barrier opt \<and> path ! i \<ge> barrier opt)
      else (\<exists>i. 1 \<le> i \<and> i < length path \<and>
                 path ! (i - 1) > barrier opt \<and> path ! i \<le> barrier opt))"
    by (cases "barrierType opt")
       (simp_all add: BarrierOption_isBarrierTouched_def crossed_up_iff crossed_down_iff)
next
  show "BarrierOption_isBarrierTouched
     \<lparr>strike = K, maturity = T, barrier = Num 100, barrierType = UpAndOut,
      BarrierOption.optionType = ty\<rparr>
     [Num 90, Num 95, Num 100, Num 105, Num 110]"
    by (simp add: BarrierOption_isBarrierTouched_def crossed_up.simps)
next
  show "BarrierOption_isBarrierTouched
     \<lparr>strike = K, maturity = T, barrier = Num 100, barrierType = UpAndIn,
      BarrierOption.optionType = ty\<rparr>
     [Num 90, Num 95, Num 100, Num 105, Num 110]"
    by (simp add: BarrierOption_isBarrierTouched_def crossed_up.simps)
qed

theorem isBarrierTouched_iff_crossing_witness:
  "\<not> BarrierOption_isBarrierTouched
     \<lparr>strike = Num 100, maturity = Num 1, barrier = Num 100, barrierType = DownAndOut,
      BarrierOption.optionType = Call\<rparr>
     [Num 90, Num 95, Num 100, Num 105, Num 110] \<and>
   BarrierOption_isBarrierTouched
     \<lparr>strike = Num 100, maturity = Num 1, barrier = Num 100, barrierType = UpAndOut,
      BarrierOption.optionType = Call\<rparr>
     [Num 90, Num 95, Num 100, Num 105, Num 110]"
proof -
  have "\<not> (\<exists>i. 1 \<le> i \<and> i < length [Num 90, Num 95, Num 100, Num 105, Num 110] \<and>
            [Num 90, Num 95, Num 100, Num 105, Num 110] ! (i - 1) > Num 100 \<and>
            [Num 90, Num 95, Num 100, Num 105, Num 110] ! i \<le> Num 100)"
  proof
    assume "\<exists>i. 1 \<le> i \<and> i < length [Num 90, Num 95, Num 100, Num 105, Num 110] \<and>
            [Num 90, Num 95, Num 100, Num 105, Num 110] ! (i - 1) > Num 100 \<and>
            [Num 90, Num 95, Num 100, Num 105, Num 110] ! i \<le> Num 100"
    then obtain i where i: "1 \<le> i" "i < 5"
      "[Num 90, Num 95, Num 100, Num 105, Num 110] ! (i - 1) > Num 100"
      "[Num 90, Num 95, Num 100, Num 105, Num 110] ! i \<le> Num 100"
      by auto
    from i(1,2) have "i = 1 \<or> i = 2 \<or> i = 3 \<or> i = 4" by arith
    with i(3,4) show False by auto
  qed
  then show ?thesis
    using isBarrierTouched_iff_crossing
      [of "\<lparr>strike = Num 100, maturity = Num 1, barrier = Num 100, barrierType = DownAndOut,
            BarrierOption.optionType = Call\<rparr>" "[Num 90, Num 95, Num 100, Num 105, Num 110]"
          "Num 100" "Num 1" Call]
    by simp
qed

text \<open>
  Claim C10. On a path of length 0 or 1, \<open>isBarrierTouched\<close> is false for every barrier
  type and level, so the barrier state that \<open>BarrierOption::hedgeCost\<close> computes before its
  loop, on the path holding the initial spot alone, is always untouched.
\<close>

theorem isBarrierTouched_initial:
  "(length path \<le> 1 \<longrightarrow> \<not> BarrierOption_isBarrierTouched opt path) \<and>
   (\<forall>st. BarrierOption_hedge_init opt m steps zs = Inr st \<longrightarrow>
      hs_path st = [spot m] \<and> \<not> hs_barrierTouched st) \<and>
   (1 \<le> steps \<longrightarrow> (\<exists>st. BarrierOption_hedge_init opt m steps zs = Inr st))"
proof (intro conjI allI impI)
  assume "length path \<le> 1"
  then show "\<not> BarrierOption_isBarrierTouched opt path"
    by (rule isBarrierTouched_short)
next
  fix st
  assume st: "BarrierOption_hedge_init opt m steps zs = Inr st"
  have T: "\<not> BarrierOption_isBarrierTouched opt [spot m]"
    by (rule isBarrierTouched_short) simp
  from st have "hs_path st = [spot m] \<and>
      hs_barrierTouched st = BarrierOption_isBarrierTouched opt [spot m]"
    by (auto simp: BarrierOption_hedge_init_def Let_def split: prod.splits sum.splits)
  with T show "hs_path st = [spot m]" and "\<not> hs_barrierTouched st"
    by simp_all
next
  assume "1 \<le> steps"
  from BarrierOption_hedge_init_inv [OF this] show "\<exists>st. BarrierOption_hedge_init opt m steps zs = Inr st"
    by blast
qed

theorem isBarrierTouched_initial_witness:
  "\<not> BarrierOption_isBarrierTouched
      \<lparr>strike = Num 100, maturity = Num 1, barrier = Num 100, barrierType = UpAndOut,
       BarrierOption.optionType = Call\<rparr> [Num 120] \<and>
   (\<exists>st. BarrierOption_hedge_init
      \<lparr>strike = Num 100, maturity = Num 1, barrier = Num 100, barrierType = UpAndOut,
       BarrierOption.optionType = Call\<rparr>
      \<lparr>spot = Num 120, rate = Num 0.05, volatility = Num 0.2, dividend = Num 0\<rparr> 2 (\<lambda>i b p j. 0) = Inr st \<and>
      hs_path st = [Num 120] \<and> \<not> hs_barrierTouched st)"
  using isBarrierTouched_initial
    [of "[Num 120]" "\<lparr>strike = Num 100, maturity = Num 1, barrier = Num 100, barrierType = UpAndOut,
       BarrierOption.optionType = Call\<rparr>"
       "\<lparr>spot = Num 120, rate = Num 0.05, volatility = Num 0.2, dividend = Num 0\<rparr>" 2 "\<lambda>i b p j. 0"]
  by auto

subsection \<open>Put-call parity of the analytic prices\<close>

text \<open>
  Claim C8. For every model with spot > 0 and volatility > 0 and every option with
  strike > 0 and maturity > 0 (all finite), the analytic call price minus the analytic put
  price equals \<open>spot * exp(-dividend * maturity) - strike * exp(-rate * maturity)\<close>,
  exactly, over real arithmetic.
\<close>

theorem put_call_parity:
  fixes s v k t r q :: real
  assumes "0 < s" "0 < v" "0 < k" "0 < t"
  shows "priceAnalytic \<lparr>spot = Num s, rate = Num r, volatility = Num v, dividend = Num q\<rparr>
           \<lparr>strike = Num k, maturity = Num t\<rparr> True -
         priceAnalytic \<lparr>spot = Num s, rate = Num r, volatility = Num v, dividend = Num q\<rparr>
           \<lparr>strike = Num k, maturity = Num t\<rparr> False =
         Num (s * exp (- q * t) - k * exp (- r * t))"
proof -
  from priceAnalytic_Num [OF assms, of r q] obtain p1 p2 where
    "priceAnalytic \<lparr>spot = Num s, rate = Num r, volatility = Num v, dividend = Num q\<rparr>
           \<lparr>strike = Num k, maturity = Num t\<rparr> True =
       Num (s * exp (- q * t) * p1 - k * exp (- r * t) * p2)"
    "priceAnalytic \<lparr>spot = Num s, rate = Num r, volatility = Num v, dividend = Num q\<rparr>
           \<lparr>strike = Num k, maturity = Num t\<rparr> False =
       Num (k * exp (- r * t) * (1 - p2) - s * exp (- q * t) * (1 - p1))"
    by blast
  then show ?thesis
    by (simp add: minus_double_def algebra_simps)
qed

theorem put_call_parity_witness:
  "(0::real) < 100 \<and> (0::real) < 0.2 \<and> (0::real) < 1 \<and>
   priceAnalytic \<lparr>spot = Num 100, rate = Num 0.05, volatility = Num 0.2, dividend = Num 0\<rparr>
           \<lparr>strike = Num 100, maturity = Num 1\<rparr> True -
         priceAnalytic \<lparr>spot = Num 100, rate = Num 0.05, volatility = Num 0.2, dividend = Num 0\<rparr>
           \<lparr>strike = Num 100, maturity = Num 1\<rparr> False =
         Num (100 - 100 * exp (- 0.05))"
  using put_call_parity [of 100 "0.2" 100 1 "0.05" 0] by simp

subsection \<open>Path conventions\<close>



end
